theory Spec2Isabelle
  imports Main "HOL-Library.Word"
begin

section \<open>The todo item and the stored collection (main.go)\<close>

text \<open>
  Go's \<^verbatim>\<open>int\<close> is a 64-bit two's complement integer on the 64-bit targets the service is
  built for: \<open>+\<close> wraps around, and \<^verbatim>\<open><\<close> compares signed values (\<open><s\<close> on words).
\<close>

type_synonym go_int = "64 word"

text \<open>\<^verbatim>\<open>type Todo struct { ID int; Task string; Done bool }\<close>\<close>

record Todo =
  ID :: go_int
  Task :: string
  Done :: bool

text \<open>
  The package-level variable \<^verbatim>\<open>todos\<close> is the only state of the in-memory variant. Every
  handler is modelled as a function from the collection before the call and the request
  to the collection after the call and the response; what the handlers write to the log is
  left out. This is its value at startup.
\<close>

definition todos_init :: "Todo list" where
  "todos_init =
     [\<lparr>ID = 1, Task = ''Learn Go basics'', Done = True\<rparr>,
      \<lparr>ID = 2, Task = ''Build a simple API'', Done = False\<rparr>]"

section \<open>Requests and responses\<close>

text \<open>
  A request body, as \<^verbatim>\<open>json.NewDecoder(r.Body).Decode(&data)\<close> sees it: either the decoder
  fails with an error message, or the body is a JSON object whose members \<^verbatim>\<open>id\<close>,
  \<^verbatim>\<open>task\<close> and \<^verbatim>\<open>done\<close> are each present or absent.
\<close>

record json_object =
  id_member :: "go_int option"
  task_member :: "string option"
  done_member :: "bool option"

datatype payload = Undecodable string | Object json_object

text \<open>
  \<^verbatim>\<open>var data Todo\<close> followed by \<^verbatim>\<open>Decode(&data)\<close>: the variable starts as the zero value
  \<^verbatim>\<open>Todo{0, "", false}\<close> and the decoder overwrites the fields whose members are present.
\<close>

definition Decode :: "payload \<Rightarrow> string + Todo" where
  "Decode p =
     (case p of
        Undecodable err \<Rightarrow> Inl err
      | Object obj \<Rightarrow>
          Inr \<lparr>ID = (case id_member obj of None \<Rightarrow> 0 | Some i \<Rightarrow> i),
               Task = (case task_member obj of None \<Rightarrow> [] | Some t \<Rightarrow> t),
               Done = (case done_member obj of None \<Rightarrow> False | Some d \<Rightarrow> d)\<rparr>)"

text \<open>
  The request: the path variable \<^verbatim>\<open>mux.Vars(r)["id"]\<close> (the empty string on the two routes
  without \<^verbatim>\<open>{id}\<close>) and the body.
\<close>

record request =
  vars_id :: string
  req_body :: payload

text \<open>
  The standard library's \<^verbatim>\<open>strconv.Atoi\<close>: an optional sign, then at least one decimal
  digit and nothing else; a value outside the range of \<^verbatim>\<open>int\<close> is an error. \<open>None\<close>
  stands for \<^verbatim>\<open>err != nil\<close>.
\<close>

definition is_digit :: "char \<Rightarrow> bool" where
  "is_digit c \<longleftrightarrow> (48::nat) \<le> of_char c \<and> of_char c \<le> (57::nat)"

fun digits_value :: "nat \<Rightarrow> string \<Rightarrow> nat option" where
  "digits_value n [] = Some n"
| "digits_value n (c # cs) =
     (if is_digit c then digits_value (n * 10 + (of_char c - 48)) cs else None)"

definition Atoi :: "string \<Rightarrow> go_int option" where
  "Atoi s =
     (case s of
        [] \<Rightarrow> None
      | c # cs \<Rightarrow>
          (let ds = (if c = CHR ''-'' \<or> c = CHR ''+'' then cs else s) in
           if ds = [] then None
           else case digits_value 0 ds of
                  None \<Rightarrow> None
                | Some n \<Rightarrow>
                    (let v = (if c = CHR ''-'' then - int n else int n) in
                     if - (2 ^ 63) \<le> v \<and> v < 2 ^ 63 then Some (word_of_int v) else None)))"

text \<open>
  What a handler writes to the \<^verbatim>\<open>http.ResponseWriter\<close>: the status code, the
  \<^verbatim>\<open>Content-Type\<close> header if one is set, and the body. A body produced by
  \<^verbatim>\<open>json.NewEncoder(w).Encode(v)\<close> is kept as the encoded value \<open>v\<close>.
\<close>

datatype content = Empty | Text string | JSON_Todo Todo | JSON_Todos "Todo list"

record response =
  status :: nat
  content_type :: "string option"
  resp_body :: content

definition StatusOK :: nat where "StatusOK = 200"
definition StatusCreated :: nat where "StatusCreated = 201"
definition StatusNoContent :: nat where "StatusNoContent = 204"
definition StatusBadRequest :: nat where "StatusBadRequest = 400"
definition StatusNotFound :: nat where "StatusNotFound = 404"
definition StatusConflict :: nat where "StatusConflict = 409"

text \<open>
  \<^verbatim>\<open>http.Error(w, msg, code)\<close> declares plain text, writes the status code and prints the
  message followed by a newline.
\<close>

definition http_Error :: "string \<Rightarrow> nat \<Rightarrow> response" where
  "http_Error msg code =
     \<lparr>status = code, content_type = Some ''text/plain; charset=utf-8'',
      resp_body = Text (msg @ [CHR 0x0A])\<rparr>"

text \<open>
  A JSON response: the handler sets \<^verbatim>\<open>Content-Type: application/json\<close>, then the status
  (\<^verbatim>\<open>WriteHeader\<close>, or 200 implicitly at the first write), then encodes the value.
\<close>

definition json_response :: "nat \<Rightarrow> content \<Rightarrow> response" where
  "json_response code v =
     \<lparr>status = code, content_type = Some ''application/json'', resp_body = v\<rparr>"

section \<open>The handlers\<close>

text \<open>\<^verbatim>\<open>slices.IndexFunc\<close>: the first index whose element satisfies \<open>f\<close>, or \<open>-1\<close>.\<close>

fun IndexFunc :: "'a list \<Rightarrow> ('a \<Rightarrow> bool) \<Rightarrow> int" where
  "IndexFunc [] f = - 1"
| "IndexFunc (x # xs) f =
     (if f x then 0 else (let i = IndexFunc xs f in if i = - 1 then - 1 else i + 1))"

text \<open>
  \<^verbatim>\<open>slices.Delete(s, i, j)\<close> removes \<^verbatim>\<open>s[i:j]\<close>; the handler calls it with a valid index
  \<open>i\<close> and \<open>j = i + 1\<close>.
\<close>

definition slices_Delete :: "'a list \<Rightarrow> nat \<Rightarrow> nat \<Rightarrow> 'a list" where
  "slices_Delete s i j = take i s @ drop j s"

definition ListHandler :: "Todo list \<Rightarrow> request \<Rightarrow> Todo list \<times> response" where
  "ListHandler todos r = (todos, json_response StatusOK (JSON_Todos todos))"

text \<open>
  The loop of \<^verbatim>\<open>ReadHandler\<close> stops at the first item whose \<^verbatim>\<open>ID\<close> is \<open>id\<close>; \<open>found\<close>
  stays \<^verbatim>\<open>nil\<close> (\<open>None\<close>) when there is none.
\<close>

fun find_todo :: "Todo list \<Rightarrow> go_int \<Rightarrow> Todo option" where
  "find_todo [] i = None"
| "find_todo (t # ts) i = (if ID t = i then Some t else find_todo ts i)"

definition ReadHandler :: "Todo list \<Rightarrow> request \<Rightarrow> Todo list \<times> response" where
  "ReadHandler todos r =
     (case Atoi (vars_id r) of
        None \<Rightarrow> (todos, http_Error ''Invalid ID! ID must be an integer'' StatusBadRequest)
      | Some i \<Rightarrow>
          (case find_todo todos i of
             None \<Rightarrow> (todos, http_Error ''Todo not found'' StatusNotFound)
           | Some found \<Rightarrow> (todos, json_response StatusOK (JSON_Todo found))))"

text \<open>
  The scan of \<^verbatim>\<open>CreateHandler\<close>: \<^verbatim>\<open>var maxID int\<close> starts at 0 and takes the \<^verbatim>\<open>ID\<close> of
  every item that is greater.
\<close>

fun max_scan :: "go_int \<Rightarrow> Todo list \<Rightarrow> go_int" where
  "max_scan maxID [] = maxID"
| "max_scan maxID (todo # ts) = max_scan (if maxID <s ID todo then ID todo else maxID) ts"

definition CreateHandler :: "Todo list \<Rightarrow> request \<Rightarrow> Todo list \<times> response" where
  "CreateHandler todos r =
     (case Decode (req_body r) of
        Inl err \<Rightarrow> (todos, http_Error err StatusBadRequest)
      | Inr data \<Rightarrow>
          if Task data = [] then (todos, http_Error ''Task is empty'' StatusBadRequest)
          else
            (let maxID = max_scan 0 todos;
                 newTask = \<lparr>ID = maxID + 1, Task = Task data, Done = Done data\<rparr>
             in (todos @ [newTask], json_response StatusCreated (JSON_Todo newTask))))"

definition UpdateHandler :: "Todo list \<Rightarrow> request \<Rightarrow> Todo list \<times> response" where
  "UpdateHandler todos r =
     (case Atoi (vars_id r) of
        None \<Rightarrow> (todos, http_Error ''Invalid ID! ID must be an integer'' StatusBadRequest)
      | Some i \<Rightarrow>
          (case Decode (req_body r) of
             Inl err \<Rightarrow> (todos, http_Error err StatusBadRequest)
           | Inr data \<Rightarrow>
               if i \<noteq> ID data
               then (todos, http_Error ''Id in url doesn't match the id in the body'' StatusConflict)
               else
                 (let idx = IndexFunc todos (\<lambda>t. ID t = i) in
                  if idx = - 1 then (todos, http_Error ''Todo not found'' StatusNotFound)
                  else (todos[nat idx := data], json_response StatusOK (JSON_Todo data)))))"

definition DeleteHandler :: "Todo list \<Rightarrow> request \<Rightarrow> Todo list \<times> response" where
  "DeleteHandler todos r =
     (case Atoi (vars_id r) of
        None \<Rightarrow> (todos, http_Error ''Invalid ID! ID must be an integer'' StatusBadRequest)
      | Some i \<Rightarrow>
          (let idx = IndexFunc todos (\<lambda>t. ID t = i) in
           if idx = - 1 then (todos, http_Error ''Todo not found'' StatusNotFound)
           else (slices_Delete todos (nat idx) (nat (idx + 1)),
                 \<lparr>status = StatusNoContent, content_type = None, resp_body = Empty\<rparr>)))"

text \<open>The routes that \<^verbatim>\<open>main\<close> registers, and a run of the service over a list of calls.\<close>

datatype route = GET_todos | GET_todos_id | POST_todos | PUT_todos_id | DELETE_todos_id

fun serve :: "route \<Rightarrow> Todo list \<Rightarrow> request \<Rightarrow> Todo list \<times> response" where
  "serve GET_todos = ListHandler"
| "serve GET_todos_id = ReadHandler"
| "serve POST_todos = CreateHandler"
| "serve PUT_todos_id = UpdateHandler"
| "serve DELETE_todos_id = DeleteHandler"

fun run :: "Todo list \<Rightarrow> (route \<times> request) list \<Rightarrow> Todo list" where
  "run todos [] = todos"
| "run todos ((rt, r) # calls) = run (fst (serve rt todos r)) calls"

text \<open>
  What a run shows to its clients: the responses in order, and the identifiers assigned
  by its successful Create calls (the identifier of the item in a 201 response).
\<close>

fun responses :: "Todo list \<Rightarrow> (route \<times> request) list \<Rightarrow> response list" where
  "responses todos [] = []"
| "responses todos ((rt, r) # calls) =
     snd (serve rt todos r) # responses (fst (serve rt todos r)) calls"

definition assigned_id :: "route \<Rightarrow> response \<Rightarrow> go_int option" where
  "assigned_id rt resp =
     (if rt = POST_todos \<and> status resp = 201
      then (case resp_body resp of JSON_Todo t \<Rightarrow> Some (ID t) | _ \<Rightarrow> None)
      else None)"

fun created_ids :: "Todo list \<Rightarrow> (route \<times> request) list \<Rightarrow> go_int list" where
  "created_ids todos [] = []"
| "created_ids todos ((rt, r) # calls) =
     (case assigned_id rt (snd (serve rt todos r)) of None \<Rightarrow> [] | Some n \<Rightarrow> [n])
     @ created_ids (fst (serve rt todos r)) calls"

text \<open>
  A run in which no Delete call changes what the scan of \<^verbatim>\<open>CreateHandler\<close> finds: no
  Delete removes the item that holds the largest identifier.
\<close>

fun deletes_keep_max :: "Todo list \<Rightarrow> (route \<times> request) list \<Rightarrow> bool" where
  "deletes_keep_max todos [] = True"
| "deletes_keep_max todos ((rt, r) # calls) =
     ((rt = DELETE_todos_id \<longrightarrow> max_scan 0 (fst (DeleteHandler todos r)) = max_scan 0 todos)
      \<and> deletes_keep_max (fst (serve rt todos r)) calls)"

text \<open>The number of Create calls in a list of calls.\<close>

definition creates :: "(route \<times> request) list \<Rightarrow> nat" where
  "creates calls = length (filter (\<lambda>c. fst c = POST_todos) calls)"

text \<open>
  The items that successive successful Create calls append to a collection whose scan
  gives \<open>m\<close>, for the decoded bodies in order: the identifiers count up from \<open>m + 1\<close>.
\<close>

fun numbered :: "int \<Rightarrow> Todo list \<Rightarrow> Todo list" where
  "numbered m [] = []"
| "numbered m (d # ds) =
     \<lparr>ID = word_of_int (m + 1), Task = Task d, Done = Done d\<rparr> # numbered (m + 1) ds"

section \<open>The table-backed variant of \<^verbatim>\<open>UpdateHandler\<close>\<close>

text \<open>
  In the second \<^verbatim>\<open>main.go\<close> the collection lives in a database table. The handler reaches
  it through \<^verbatim>\<open>db.Exec("UPDATE todos SET task = ?, done = ? WHERE id = ?", ...)\<close> and
  \<^verbatim>\<open>result.RowsAffected()\<close>; what the database answers is not decided by the code, so
  the statement is a parameter \<open>exec_update\<close> that maps the database and the three
  arguments to the database afterwards and the answer the handler sees.
\<close>

datatype exec_outcome = ExecError | RowsAffectedError | RowsAffected int

definition StatusInternalServerError :: nat where "StatusInternalServerError = 500"

definition UpdateHandler_db ::
  "('db \<Rightarrow> string \<Rightarrow> bool \<Rightarrow> go_int \<Rightarrow> 'db \<times> exec_outcome) \<Rightarrow> 'db \<Rightarrow> request \<Rightarrow> 'db \<times> response" where
  "UpdateHandler_db exec_update db r =
     (case Atoi (vars_id r) of
        None \<Rightarrow> (db, http_Error ''Invalid ID! ID must be an integer'' StatusBadRequest)
      | Some i \<Rightarrow>
          (case Decode (req_body r) of
             Inl err \<Rightarrow> (db, http_Error err StatusBadRequest)
           | Inr data \<Rightarrow>
               if i \<noteq> ID data
               then (db, http_Error ''Id in url doesn't match the id in the body'' StatusConflict)
               else
                 (case exec_update db (Task data) (Done data) i of
                    (db', ExecError) \<Rightarrow>
                      (db', http_Error ''Internal server error'' StatusInternalServerError)
                  | (db', RowsAffectedError) \<Rightarrow>
                      (db', http_Error ''Internal server error'' StatusInternalServerError)
                  | (db', RowsAffected n) \<Rightarrow>
                      if n = 0 then (db', http_Error ''Todo not found'' StatusNotFound)
                      else (db', json_response StatusOK (JSON_Todo data)))))"

text \<open>
  The database is not part of the repository; only the table and the statement are in
  the source: \<^verbatim>\<open>CREATE TABLE todos (id INT AUTO_INCREMENT PRIMARY KEY, task VARCHAR(255)
  NOT NULL, done BOOLEAN DEFAULT FALSE)\<close> and \<^verbatim>\<open>UPDATE todos SET task = ?, done = ? WHERE
  id = ?\<close>. The table is modelled as the list of its rows (the primary key makes their
  identifiers distinct) and the statement as MySQL executes it for values that fit their
  columns: every row with that \<^verbatim>\<open>id\<close> gets the new task and flag, and the rows that
  \<^verbatim>\<open>RowsAffected\<close> counts are the rows whose values changed, which is what the driver
  reports for the connection string of \<^verbatim>\<open>main\<close>, \<^verbatim>\<open>"%s:%s@tcp(%s:%s)/%s"\<close>, that does
  not set \<^verbatim>\<open>clientFoundRows\<close>.
\<close>

definition mysql_update :: "Todo list \<Rightarrow> string \<Rightarrow> bool \<Rightarrow> go_int \<Rightarrow> Todo list \<times> exec_outcome" where
  "mysql_update rows task dn i =
     (map (\<lambda>row. if ID row = i then row\<lparr>Task := task, Done := dn\<rparr> else row) rows,
      RowsAffected
        (int (length (filter (\<lambda>row. ID row = i \<and> (Task row \<noteq> task \<or> Done row \<noteq> dn)) rows))))"

section \<open>Properties of the library functions and of the loops\<close>

lemma IndexFunc_range: "IndexFunc xs f = - 1 \<or> (0 \<le> IndexFunc xs f \<and> IndexFunc xs f < int (length xs))"
  by (induction xs) (auto simp: Let_def)

lemma IndexFunc_none_iff: "IndexFunc xs f = - 1 \<longleftrightarrow> (\<forall>x\<in>set xs. \<not> f x)"
proof (induction xs)
  case Nil
  then show ?case by simp
next
  case (Cons x xs)
  from IndexFunc_range [of xs f] have "IndexFunc xs f + 1 \<noteq> - 1" by auto
  with Cons show ?case by (auto simp: Let_def)
qed

lemma IndexFunc_hit: "IndexFunc xs f \<noteq> - 1 \<Longrightarrow> f (xs ! nat (IndexFunc xs f))"
proof (induction xs)
  case Nil
  then show ?case by simp
next
  case (Cons x xs)
  show ?case
  proof (cases "f x")
    case True
    then show ?thesis by simp
  next
    case False
    with Cons.prems have ne: "IndexFunc xs f \<noteq> - 1" by (auto simp: Let_def)
    with IndexFunc_range [of xs f] have "0 \<le> IndexFunc xs f" by auto
    then have "nat (IndexFunc xs f + 1) = Suc (nat (IndexFunc xs f))" by simp
    with False ne Cons.IH show ?thesis by (simp add: Let_def)
  qed
qed

lemma IndexFunc_first: "k < nat (IndexFunc xs f) \<Longrightarrow> IndexFunc xs f \<noteq> - 1 \<Longrightarrow> \<not> f (xs ! k)"
proof (induction xs arbitrary: k)
  case Nil
  then show ?case by simp
next
  case (Cons x xs)
  show ?case
  proof (cases "f x")
    case True
    with Cons.prems show ?thesis by simp
  next
    case False
    with Cons.prems have ne: "IndexFunc xs f \<noteq> - 1" by (auto simp: Let_def)
    with IndexFunc_range [of xs f] have "0 \<le> IndexFunc xs f" by auto
    then have eq: "nat (IndexFunc xs f + 1) = Suc (nat (IndexFunc xs f))" by simp
    show ?thesis
    proof (cases k)
      case 0
      with False show ?thesis by simp
    next
      case (Suc j)
      with Cons.prems False ne eq have "j < nat (IndexFunc xs f)" by (simp add: Let_def)
      with Cons.IH ne Suc show ?thesis by simp
    qed
  qed
qed

lemma max_scan_sint: "sint (max_scan m ts) = Max (insert (sint m) (sint ` ID ` set ts))"
proof (induction ts arbitrary: m)
  case Nil
  then show ?case by simp
next
  case (Cons t ts)
  have fin: "finite (sint ` ID ` set ts)" by simp
  have "Max (insert (sint m) (insert (sint (ID t)) (sint ` ID ` set ts)))
      = Max (insert (max (sint m) (sint (ID t))) (sint ` ID ` set ts))"
  proof (cases "sint ` ID ` set ts = {}")
    case True
    then show ?thesis by (simp add: max.commute)
  next
    case False
    with fin show ?thesis by (simp add: max.assoc)
  qed
  moreover have "sint (if m <s ID t then ID t else m) = max (sint m) (sint (ID t))"
    by (simp add: word_sless_alt max_def)
  ultimately show ?case using Cons.IH [of "if m <s ID t then ID t else m"]
    by simp
qed

lemma find_todo_None_iff: "find_todo ts i = None \<longleftrightarrow> i \<notin> ID ` set ts"
  by (induction ts) auto

lemma find_todo_distinct:
  "distinct (map ID ts) \<Longrightarrow> k < length ts \<Longrightarrow> find_todo ts (ID (ts ! k)) = Some (ts ! k)"
proof (induction ts arbitrary: k)
  case Nil
  then show ?case by simp
next
  case (Cons t ts)
  show ?case
  proof (cases k)
    case 0
    then show ?thesis by simp
  next
    case (Suc j)
    with Cons.prems have "j < length ts" by simp
    then have "ts ! j \<in> set ts" by simp
    with Cons.prems have "ID t \<noteq> ID (ts ! j)" by auto
    with Cons Suc show ?thesis by simp
  qed
qed

lemma sint_succ_no_wrap:
  fixes w :: go_int
  assumes "sint w < 2 ^ 63 - 1"
  shows "sint (w + 1) = sint w + 1"
proof -
  have lo: "- (2 ^ 63) \<le> sint w" using sint_ge [of w] by simp
  have "sint (w + 1) = signed_take_bit 63 (sint w + 1)"
    by (simp add: sint_word_add)
  also have "\<dots> = sint w + 1"
    using lo assms by (intro signed_take_bit_int_eq_self) simp_all
  finally show ?thesis .
qed

lemma max_scan_eq_word: "max_scan 0 ts = word_of_int (Max (insert 0 (sint ` ID ` set ts)))"
proof -
  have "sint (max_scan 0 ts) = Max (insert 0 (sint ` ID ` set ts))"
    using max_scan_sint [of 0 ts] by simp
  then have "word_of_int (sint (max_scan 0 ts)) = (word_of_int (Max (insert 0 (sint ` ID ` set ts))) :: go_int)"
    by simp
  then show ?thesis by simp
qed

lemma Max_insert_0_nonneg:
  assumes "\<exists>t\<in>set ts. 0 \<le>s ID t"
  shows "Max (insert 0 (sint ` ID ` set ts)) = Max (sint ` ID ` set ts)"
proof -
  from assms obtain t where t: "t \<in> set ts" "0 \<le> sint (ID t)"
    by (auto simp: word_sle_eq)
  have fin: "finite (sint ` ID ` set ts)" and ne: "sint ` ID ` set ts \<noteq> {}"
    using t by auto
  have "sint (ID t) \<le> Max (sint ` ID ` set ts)"
    using t fin by (intro Max_ge) auto
  with t have "0 \<le> Max (sint ` ID ` set ts)" by linarith
  with fin ne show ?thesis by (simp add: max_def)
qed

lemma CreateHandler_ok:
  assumes "Decode (req_body r) = Inr data" and "Task data \<noteq> []"
  shows "CreateHandler todos r =
    (todos @ [\<lparr>ID = max_scan 0 todos + 1, Task = Task data, Done = Done data\<rparr>],
     json_response StatusCreated (JSON_Todo \<lparr>ID = max_scan 0 todos + 1, Task = Task data, Done = Done data\<rparr>))"
  using assms by (simp add: CreateHandler_def Let_def)

section \<open>Claims about a single call\<close>

lemma CreateHandler_max_plus_one:
  assumes "Decode (req_body r) = Inr data" and "Task data \<noteq> []"
  shows
    "(let newTask = \<lparr>ID = word_of_int (Max (insert 0 (sint ` ID ` set todos)) + 1),
                      Task = Task data, Done = Done data\<rparr>
      in CreateHandler todos r = (todos @ [newTask], json_response StatusCreated (JSON_Todo newTask)))
     \<and> ((\<exists>t\<in>set todos. 0 \<le>s ID t) \<longrightarrow>
          Max (insert 0 (sint ` ID ` set todos)) = Max (sint ` ID ` set todos))
     \<and> CreateHandler []
          \<lparr>vars_id = v,
           req_body = Object \<lparr>id_member = supplied, task_member = Some ''Learn Go'',
                              done_member = Some False\<rparr>\<rparr>
         = ([\<lparr>ID = 1, Task = ''Learn Go'', Done = False\<rparr>],
            json_response StatusCreated (JSON_Todo \<lparr>ID = 1, Task = ''Learn Go'', Done = False\<rparr>))"
proof (intro conjI)
  have "word_of_int (Max (insert 0 (sint ` ID ` set todos)) + 1) = max_scan 0 todos + (1 :: go_int)"
    by (simp add: max_scan_eq_word)
  then show "let newTask = \<lparr>ID = word_of_int (Max (insert 0 (sint ` ID ` set todos)) + 1),
                      Task = Task data, Done = Done data\<rparr>
      in CreateHandler todos r = (todos @ [newTask], json_response StatusCreated (JSON_Todo newTask))"
    using CreateHandler_ok [OF assms, of todos] by (simp add: Let_def)
next
  show "(\<exists>t\<in>set todos. 0 \<le>s ID t) \<longrightarrow>
          Max (insert 0 (sint ` ID ` set todos)) = Max (sint ` ID ` set todos)"
    using Max_insert_0_nonneg by blast
next
  show "CreateHandler []
          \<lparr>vars_id = v,
           req_body = Object \<lparr>id_member = supplied, task_member = Some ''Learn Go'',
                              done_member = Some False\<rparr>\<rparr>
         = ([\<lparr>ID = 1, Task = ''Learn Go'', Done = False\<rparr>],
            json_response StatusCreated (JSON_Todo \<lparr>ID = 1, Task = ''Learn Go'', Done = False\<rparr>))"
    by (simp add: CreateHandler_def Decode_def Let_def)
qed

text \<open>
  C1. A successful Create (the body decodes and its task is not empty) appends one item and
  answers 201 with it as JSON. The item's identifier is the maximum plus 1 (in 64-bit
  arithmetic), its task and completion flag are the body's, and an identifier in the body
  plays no part. The scan starts at 0, so the maximum is taken over 0 and the stored
  identifiers: it is the maximum of the stored identifiers as soon as one of them is not
  negative, and on the empty collection the new identifier is 1, as in the scenario of
  \<^verbatim>\<open>{"task":"Learn Go","done":false}\<close>.
\<close>

theorem create_assigns_max_plus_one:
  assumes "Decode (req_body r) = Inr data" and "Task data \<noteq> []"
  shows
    "(let newTask = \<lparr>ID = word_of_int (Max (insert 0 (sint ` ID ` set todos)) + 1),
                      Task = Task data, Done = Done data\<rparr>
      in CreateHandler todos r =
           (todos @ [newTask],
            \<lparr>status = 201, content_type = Some ''application/json'',
             resp_body = JSON_Todo newTask\<rparr>))
     \<and> ((\<exists>t\<in>set todos. 0 \<le>s ID t) \<longrightarrow>
          Max (insert 0 (sint ` ID ` set todos)) = Max (sint ` ID ` set todos))
     \<and> CreateHandler []
          \<lparr>vars_id = v,
           req_body = Object \<lparr>id_member = supplied, task_member = Some ''Learn Go'',
                              done_member = Some False\<rparr>\<rparr>
         = ([\<lparr>ID = 1, Task = ''Learn Go'', Done = False\<rparr>],
            \<lparr>status = 201, content_type = Some ''application/json'',
             resp_body = JSON_Todo \<lparr>ID = 1, Task = ''Learn Go'', Done = False\<rparr>\<rparr>)"
  using CreateHandler_max_plus_one [OF assms, of todos v supplied]
  by (simp add: json_response_def StatusCreated_def Let_def)

theorem create_assigns_max_plus_one_witness:
  "Decode (req_body \<lparr>vars_id = [], req_body = Object \<lparr>id_member = Some 9, task_member = Some ''Write tests'', done_member = None\<rparr>\<rparr>)
     = Inr \<lparr>ID = 9, Task = ''Write tests'', Done = False\<rparr>
   \<and> Task \<lparr>ID = 9, Task = ''Write tests'', Done = False\<rparr> \<noteq> []
   \<and> (\<exists>t\<in>set todos_init. 0 \<le>s ID t)
   \<and> CreateHandler todos_init \<lparr>vars_id = [], req_body = Object \<lparr>id_member = Some 9, task_member = Some ''Write tests'', done_member = None\<rparr>\<rparr>
     = ([\<lparr>ID = 1, Task = ''Learn Go basics'', Done = True\<rparr>,
         \<lparr>ID = 2, Task = ''Build a simple API'', Done = False\<rparr>,
         \<lparr>ID = 3, Task = ''Write tests'', Done = False\<rparr>],
        \<lparr>status = 201, content_type = Some ''application/json'',
         resp_body = JSON_Todo \<lparr>ID = 3, Task = ''Write tests'', Done = False\<rparr>\<rparr>)"
proof -
  have by_evaluation:
    "Decode (req_body \<lparr>vars_id = [], req_body = Object \<lparr>id_member = Some 9, task_member = Some ''Write tests'', done_member = None\<rparr>\<rparr>)
        = Inr \<lparr>ID = 9, Task = ''Write tests'', Done = False\<rparr>
      \<and> Task \<lparr>ID = 9, Task = ''Write tests'', Done = False\<rparr> \<noteq> []
      \<and> (\<exists>t\<in>set todos_init. 0 \<le>s ID t)
      \<and> CreateHandler todos_init \<lparr>vars_id = [], req_body = Object \<lparr>id_member = Some 9, task_member = Some ''Write tests'', done_member = None\<rparr>\<rparr>
        = ([\<lparr>ID = 1, Task = ''Learn Go basics'', Done = True\<rparr>,
            \<lparr>ID = 2, Task = ''Build a simple API'', Done = False\<rparr>,
            \<lparr>ID = 3, Task = ''Write tests'', Done = False\<rparr>],
           \<lparr>status = 201, content_type = Some ''application/json'',
            resp_body = JSON_Todo \<lparr>ID = 3, Task = ''Write tests'', Done = False\<rparr>\<rparr>)"
    by (simp add: todos_init_def CreateHandler_def DeleteHandler_def UpdateHandler_def
        ReadHandler_def ListHandler_def UpdateHandler_db_def mysql_update_def Decode_def Atoi_def
        is_digit_def Let_def word_sless_alt word_sle_eq slices_Delete_def assigned_id_def
        creates_def json_response_def http_Error_def StatusOK_def StatusCreated_def
        StatusNoContent_def StatusBadRequest_def StatusNotFound_def StatusConflict_def)
  let ?r = "\<lparr>vars_id = [], req_body = Object \<lparr>id_member = Some 9, task_member = Some ''Write tests'', done_member = None\<rparr>\<rparr>"
  let ?d = "\<lparr>ID = 9, Task = ''Write tests'', Done = False\<rparr>"
  have d: "Decode (req_body ?r) = Inr ?d" by (simp add: Decode_def)
  have t: "Task ?d \<noteq> []" by simp
  have e: "\<exists>t\<in>set todos_init. 0 \<le>s ID t" by (simp add: todos_init_def word_sle_eq)
  have m: "Max (sint ` ID ` set todos_init) = 2" by (simp add: todos_init_def)
  from create_assigns_max_plus_one [OF d t, of todos_init] e m
  have "CreateHandler todos_init ?r
     = (todos_init @ [\<lparr>ID = 3, Task = ''Write tests'', Done = False\<rparr>],
        \<lparr>status = 201, content_type = Some ''application/json'',
         resp_body = JSON_Todo \<lparr>ID = 3, Task = ''Write tests'', Done = False\<rparr>\<rparr>)"
    by (simp add: Let_def)
  then have c: "CreateHandler todos_init ?r
     = ([\<lparr>ID = 1, Task = ''Learn Go basics'', Done = True\<rparr>,
         \<lparr>ID = 2, Task = ''Build a simple API'', Done = False\<rparr>,
         \<lparr>ID = 3, Task = ''Write tests'', Done = False\<rparr>],
        \<lparr>status = 201, content_type = Some ''application/json'',
         resp_body = JSON_Todo \<lparr>ID = 3, Task = ''Write tests'', Done = False\<rparr>\<rparr>)"
    by (simp add: todos_init_def)
  show ?thesis using d t e c by (intro conjI)
qed

lemma UpdateHandler_missing:
  assumes "Atoi (vars_id r) = Some i" and "Decode (req_body r) = Inr data" and "ID data = i"
    and "i \<notin> ID ` set todos"
  shows "UpdateHandler todos r = (todos, http_Error ''Todo not found'' StatusNotFound)"
proof -
  from assms(4) have "IndexFunc todos (\<lambda>t. ID t = i) = - 1"
    by (auto simp: IndexFunc_none_iff)
  with assms(1-3) show ?thesis by (simp add: UpdateHandler_def Let_def)
qed

lemma UpdateHandler_found:
  assumes "Atoi (vars_id r) = Some i" and "Decode (req_body r) = Inr data" and "ID data = i"
    and "i \<in> ID ` set todos"
  shows "\<exists>k<length todos. ID (todos ! k) = i \<and> (\<forall>j<k. ID (todos ! j) \<noteq> i) \<and>
           UpdateHandler todos r = (todos[k := data], json_response StatusOK (JSON_Todo data))"
proof -
  let ?idx = "IndexFunc todos (\<lambda>t. ID t = i)"
  from assms(4) have ne: "?idx \<noteq> - 1" by (auto simp: IndexFunc_none_iff)
  with IndexFunc_range [of todos "\<lambda>t. ID t = i"]
  have range: "0 \<le> ?idx" "?idx < int (length todos)" by auto
  then have k: "nat ?idx < length todos" by simp
  have hit: "ID (todos ! nat ?idx) = i" using IndexFunc_hit [OF ne] .
  have first: "\<forall>j<nat ?idx. ID (todos ! j) \<noteq> i"
    using IndexFunc_first [OF _ ne] by blast
  have "UpdateHandler todos r = (todos[nat ?idx := data], json_response StatusOK (JSON_Todo data))"
    using assms(1-3) ne by (simp add: UpdateHandler_def Let_def)
  with k hit first show ?thesis by blast
qed

lemma UpdateHandler_db_matching:
  assumes "Atoi (vars_id r) = Some i" and "Decode (req_body r) = Inr data" and "ID data = i"
  shows "UpdateHandler_db exec_update db r =
    (case exec_update db (Task data) (Done data) i of
       (db', ExecError) \<Rightarrow> (db', http_Error ''Internal server error'' StatusInternalServerError)
     | (db', RowsAffectedError) \<Rightarrow> (db', http_Error ''Internal server error'' StatusInternalServerError)
     | (db', RowsAffected n) \<Rightarrow>
         if n = 0 then (db', http_Error ''Todo not found'' StatusNotFound)
         else (db', json_response StatusOK (JSON_Todo data)))"
  using assms by (simp add: UpdateHandler_db_def)

lemma same_id_same_row:
  fixes rows :: "Todo list"
  assumes "distinct (map ID rows)" and "x \<in> set rows" and "y \<in> set rows" and "ID x = ID y"
  shows "x = y"
proof -
  from assms(1) have "inj_on ID (set rows)" by (simp add: distinct_map)
  from this assms(4) assms(2) assms(3) show ?thesis by (rule inj_onD)
qed

lemma mysql_update_missing:
  assumes "i \<notin> ID ` set rows"
  shows "mysql_update rows task dn i = (rows, RowsAffected 0)"
proof -
  from assms have no: "\<forall>row\<in>set rows. ID row \<noteq> i" by auto
  then have "map (\<lambda>row. if ID row = i then row\<lparr>Task := task, Done := dn\<rparr> else row) rows = rows"
    by (simp add: map_idI)
  moreover from no
  have "filter (\<lambda>row. ID row = i \<and> (Task row \<noteq> task \<or> Done row \<noteq> dn)) rows = []"
    by (simp add: filter_empty_conv)
  ultimately show ?thesis by (simp add: mysql_update_def)
qed

lemma mysql_update_same:
  assumes d: "distinct (map ID rows)" and m: "\<lparr>ID = i, Task = task, Done = dn\<rparr> \<in> set rows"
  shows "mysql_update rows task dn i = (rows, RowsAffected 0)"
proof -
  let ?data = "\<lparr>ID = i, Task = task, Done = dn\<rparr>"
  have eq: "row = ?data" if "row \<in> set rows" "ID row = i" for row
    using same_id_same_row [OF d that(1) m] that(2) by simp
  have "(if ID row = i then row\<lparr>Task := task, Done := dn\<rparr> else row) = row"
    if "row \<in> set rows" for row
  proof (cases "ID row = i")
    case True
    from eq [OF that True] show ?thesis by simp
  next
    case False
    then show ?thesis by simp
  qed
  then have "map (\<lambda>row. if ID row = i then row\<lparr>Task := task, Done := dn\<rparr> else row) rows = rows"
    by (simp add: map_idI)
  moreover have "\<not> (ID row = i \<and> (Task row \<noteq> task \<or> Done row \<noteq> dn))"
    if "row \<in> set rows" for row
  proof
    assume h: "ID row = i \<and> (Task row \<noteq> task \<or> Done row \<noteq> dn)"
    with eq [OF that] have "row = ?data" by blast
    with h show False by simp
  qed
  then have "filter (\<lambda>row. ID row = i \<and> (Task row \<noteq> task \<or> Done row \<noteq> dn)) rows = []"
    by (simp add: filter_empty_conv)
  ultimately show ?thesis by (simp add: mysql_update_def)
qed

lemma mysql_update_changed:
  assumes "i \<in> ID ` set rows" and "\<lparr>ID = i, Task = task, Done = dn\<rparr> \<notin> set rows"
  shows "\<exists>n. n \<noteq> 0 \<and> mysql_update rows task dn i
           = (map (\<lambda>row. if ID row = i then \<lparr>ID = i, Task = task, Done = dn\<rparr> else row) rows,
              RowsAffected n)"
proof -
  from assms(1) obtain row where row: "row \<in> set rows" "ID row = i" by auto
  have "Task row \<noteq> task \<or> Done row \<noteq> dn"
  proof (rule ccontr)
    assume "\<not> (Task row \<noteq> task \<or> Done row \<noteq> dn)"
    with row(2) have "row = \<lparr>ID = i, Task = task, Done = dn\<rparr>" by simp
    with row(1) assms(2) show False by simp
  qed
  with row have "row \<in> set (filter (\<lambda>row. ID row = i \<and> (Task row \<noteq> task \<or> Done row \<noteq> dn)) rows)"
    by simp
  then have "filter (\<lambda>row. ID row = i \<and> (Task row \<noteq> task \<or> Done row \<noteq> dn)) rows \<noteq> []"
    by (metis empty_iff empty_set)
  then have n: "int (length (filter (\<lambda>row. ID row = i \<and> (Task row \<noteq> task \<or> Done row \<noteq> dn)) rows)) \<noteq> 0"
    by simp
  have "(\<lambda>row. if ID row = i then row\<lparr>Task := task, Done := dn\<rparr> else row)
      = (\<lambda>row. if ID row = i then \<lparr>ID = i, Task = task, Done = dn\<rparr> else row)"
    by (rule ext) auto
  then have "mysql_update rows task dn i
      = (map (\<lambda>row. if ID row = i then \<lparr>ID = i, Task = task, Done = dn\<rparr> else row) rows,
         RowsAffected (int (length (filter (\<lambda>row. ID row = i \<and> (Task row \<noteq> task \<or> Done row \<noteq> dn)) rows))))"
    by (simp add: mysql_update_def)
  with n show ?thesis by blast
qed

lemma UpdateHandler_db_mysql:
  assumes "Atoi (vars_id r) = Some i" and "Decode (req_body r) = Inr data" and "ID data = i"
  shows "i \<notin> ID ` set rows \<Longrightarrow>
       UpdateHandler_db mysql_update rows r
         = (rows, \<lparr>status = 404, content_type = Some ''text/plain; charset=utf-8'',
                   resp_body = Text (''Todo not found'' @ [CHR 0x0A])\<rparr>)"
    and "distinct (map ID rows) \<Longrightarrow> data \<in> set rows \<Longrightarrow>
       UpdateHandler_db mysql_update rows r
         = (rows, \<lparr>status = 404, content_type = Some ''text/plain; charset=utf-8'',
                   resp_body = Text (''Todo not found'' @ [CHR 0x0A])\<rparr>)"
    and "i \<in> ID ` set rows \<Longrightarrow> data \<notin> set rows \<Longrightarrow>
       UpdateHandler_db mysql_update rows r
         = (map (\<lambda>row. if ID row = i then data else row) rows,
            \<lparr>status = 200, content_type = Some ''application/json'',
             resp_body = JSON_Todo data\<rparr>)"
proof -
  have rec: "data = \<lparr>ID = i, Task = Task data, Done = Done data\<rparr>" using assms(3) by simp
  note h = UpdateHandler_db_matching [OF assms, of mysql_update rows]
  show "UpdateHandler_db mysql_update rows r
         = (rows, \<lparr>status = 404, content_type = Some ''text/plain; charset=utf-8'',
                   resp_body = Text (''Todo not found'' @ [CHR 0x0A])\<rparr>)"
    if "i \<notin> ID ` set rows"
    using h mysql_update_missing [OF that, of "Task data" "Done data"]
    by (simp add: http_Error_def StatusNotFound_def)
  show "UpdateHandler_db mysql_update rows r
         = (rows, \<lparr>status = 404, content_type = Some ''text/plain; charset=utf-8'',
                   resp_body = Text (''Todo not found'' @ [CHR 0x0A])\<rparr>)"
    if d: "distinct (map ID rows)" and m: "data \<in> set rows"
  proof -
    from m rec have "\<lparr>ID = i, Task = Task data, Done = Done data\<rparr> \<in> set rows" by simp
    from mysql_update_same [OF d this] h show ?thesis
      by (simp add: http_Error_def StatusNotFound_def)
  qed
  show "UpdateHandler_db mysql_update rows r
         = (map (\<lambda>row. if ID row = i then data else row) rows,
            \<lparr>status = 200, content_type = Some ''application/json'',
             resp_body = JSON_Todo data\<rparr>)"
    if m: "i \<in> ID ` set rows" and n: "data \<notin> set rows"
  proof -
    from n rec have "\<lparr>ID = i, Task = Task data, Done = Done data\<rparr> \<notin> set rows" by simp
    from mysql_update_changed [OF m this] obtain k where k: "k \<noteq> 0"
      and u: "mysql_update rows (Task data) (Done data) i
           = (map (\<lambda>row. if ID row = i then \<lparr>ID = i, Task = Task data, Done = Done data\<rparr> else row) rows,
              RowsAffected k)"
      by blast
    have "\<lparr>ID = i, Task = Task data, Done = Done data\<rparr> = data" using assms(3) by simp
    then have "(\<lambda>row. if ID row = i then \<lparr>ID = i, Task = Task data, Done = Done data\<rparr> else row)
        = (\<lambda>row. if ID row = i then data else row)"
      by (simp only:)
    with u have "mysql_update rows (Task data) (Done data) i
           = (map (\<lambda>row. if ID row = i then data else row) rows, RowsAffected k)"
      by simp
    with h k show ?thesis by (simp add: json_response_def StatusOK_def)
  qed
qed

text \<open>
  C4. In the in-memory variant, an Update whose path identifier parses, whose body decodes
  and whose body identifier is the path identifier answers 404 exactly when no stored item
  has that identifier, and then leaves the collection as it was; otherwise it answers 200
  with the body's item, which is then stored. The table-backed variant agrees when no row
  has the identifier (404) and when the row differs from the body (200, the row is
  rewritten), but it takes "no row affected" for "no such row": when the row already holds
  the body's task and flag, nothing changes, the database reports no affected row, and
  the handler answers 404 "Todo not found" for an item that is stored.
\<close>

theorem update_reports_not_found:
  assumes "Atoi (vars_id r) = Some i" and "Decode (req_body r) = Inr data" and "ID data = i"
  shows
    "(status (snd (UpdateHandler todos r)) = 404 \<longleftrightarrow> i \<notin> ID ` set todos)
     \<and> (i \<notin> ID ` set todos \<longrightarrow>
          UpdateHandler todos r
            = (todos, \<lparr>status = 404, content_type = Some ''text/plain; charset=utf-8'',
                        resp_body = Text (''Todo not found'' @ [CHR 0x0A])\<rparr>))
     \<and> (i \<in> ID ` set todos \<longrightarrow>
          snd (UpdateHandler todos r)
            = \<lparr>status = 200, content_type = Some ''application/json'',
               resp_body = JSON_Todo data\<rparr>
          \<and> data \<in> set (fst (UpdateHandler todos r)))
     \<and> (i \<notin> ID ` set rows \<longrightarrow>
          UpdateHandler_db mysql_update rows r
            = (rows, \<lparr>status = 404, content_type = Some ''text/plain; charset=utf-8'',
                       resp_body = Text (''Todo not found'' @ [CHR 0x0A])\<rparr>))
     \<and> (i \<in> ID ` set rows \<and> data \<notin> set rows \<and> length (Task data) \<le> 255 \<longrightarrow>
          UpdateHandler_db mysql_update rows r
            = (map (\<lambda>row. if ID row = i then data else row) rows,
               \<lparr>status = 200, content_type = Some ''application/json'',
                resp_body = JSON_Todo data\<rparr>))
     \<and> (distinct (map ID rows) \<and> data \<in> set rows \<longrightarrow>
          UpdateHandler_db mysql_update rows r
            = (rows, \<lparr>status = 404, content_type = Some ''text/plain; charset=utf-8'',
                       resp_body = Text (''Todo not found'' @ [CHR 0x0A])\<rparr>))"
proof -
  let ?nf = "\<lparr>status = 404, content_type = Some ''text/plain; charset=utf-8'',
              resp_body = Text (''Todo not found'' @ [CHR 0x0A])\<rparr>"
  let ?ok = "\<lparr>status = 200, content_type = Some ''application/json'',
              resp_body = JSON_Todo data\<rparr>"
  have missing: "UpdateHandler todos r = (todos, ?nf)" if "i \<notin> ID ` set todos"
    using UpdateHandler_missing [OF assms that]
    by (simp add: http_Error_def StatusNotFound_def)
  have found: "snd (UpdateHandler todos r) = ?ok \<and> data \<in> set (fst (UpdateHandler todos r))"
    if "i \<in> ID ` set todos"
  proof -
    from UpdateHandler_found [OF assms that] obtain k where
      k: "k < length todos"
      and upd: "UpdateHandler todos r = (todos[k := data], json_response StatusOK (JSON_Todo data))"
      by blast
    from k have "data \<in> set (todos[k := data])" by (simp add: set_update_memI)
    with upd show ?thesis by (simp add: json_response_def StatusOK_def)
  qed
  have iff: "status (snd (UpdateHandler todos r)) = 404 \<longleftrightarrow> i \<notin> ID ` set todos"
  proof (cases "i \<in> ID ` set todos")
    case True
    with found have "status (snd (UpdateHandler todos r)) = 200" by simp
    with True show ?thesis by simp
  next
    case False
    with missing show ?thesis by simp
  qed
  note db = UpdateHandler_db_mysql [OF assms, of rows]
  show ?thesis
  proof (intro conjI impI)
    show "status (snd (UpdateHandler todos r)) = 404 \<longleftrightarrow> i \<notin> ID ` set todos" by (rule iff)
  next
    assume "i \<notin> ID ` set todos"
    then show "UpdateHandler todos r = (todos, ?nf)" by (rule missing)
  next
    assume "i \<in> ID ` set todos"
    then show "snd (UpdateHandler todos r) = ?ok" using found by blast
  next
    assume "i \<in> ID ` set todos"
    then show "data \<in> set (fst (UpdateHandler todos r))" using found by blast
  next
    assume "i \<notin> ID ` set rows"
    then show "UpdateHandler_db mysql_update rows r = (rows, ?nf)" by (rule db(1))
  next
    assume "i \<in> ID ` set rows \<and> data \<notin> set rows \<and> length (Task data) \<le> 255"
    then have "i \<in> ID ` set rows" "data \<notin> set rows" by blast+
    then show "UpdateHandler_db mysql_update rows r
        = (map (\<lambda>row. if ID row = i then data else row) rows, ?ok)"
      by (rule db(3))
  next
    assume "distinct (map ID rows) \<and> data \<in> set rows"
    then have "distinct (map ID rows)" "data \<in> set rows" by blast+
    then show "UpdateHandler_db mysql_update rows r = (rows, ?nf)" by (rule db(2))
  qed
qed

theorem update_reports_not_found_witness:
  "Atoi (vars_id \<lparr>vars_id = ''1'', req_body = Object \<lparr>id_member = Some 1, task_member = Some ''Learn Go'', done_member = Some True\<rparr>\<rparr>) = Some 1
   \<and> Decode (req_body \<lparr>vars_id = ''1'', req_body = Object \<lparr>id_member = Some 1, task_member = Some ''Learn Go'', done_member = Some True\<rparr>\<rparr>)
       = Inr \<lparr>ID = 1, Task = ''Learn Go'', Done = True\<rparr>
   \<and> 1 \<in> ID ` set todos_init
   \<and> snd (UpdateHandler todos_init \<lparr>vars_id = ''1'', req_body = Object \<lparr>id_member = Some 1, task_member = Some ''Learn Go'', done_member = Some True\<rparr>\<rparr>)
       = \<lparr>status = 200, content_type = Some ''application/json'',
          resp_body = JSON_Todo \<lparr>ID = 1, Task = ''Learn Go'', Done = True\<rparr>\<rparr>
   \<and> 1 \<notin> ID ` set [\<lparr>ID = 2, Task = ''Build a simple API'', Done = False\<rparr>]
   \<and> UpdateHandler [\<lparr>ID = 2, Task = ''Build a simple API'', Done = False\<rparr>]
        \<lparr>vars_id = ''1'', req_body = Object \<lparr>id_member = Some 1, task_member = Some ''Learn Go'', done_member = Some True\<rparr>\<rparr>
       = ([\<lparr>ID = 2, Task = ''Build a simple API'', Done = False\<rparr>],
          \<lparr>status = 404, content_type = Some ''text/plain; charset=utf-8'',
           resp_body = Text (''Todo not found'' @ [CHR 0x0A])\<rparr>)
   \<and> UpdateHandler_db mysql_update [\<lparr>ID = 2, Task = ''Build a simple API'', Done = False\<rparr>]
        \<lparr>vars_id = ''1'', req_body = Object \<lparr>id_member = Some 1, task_member = Some ''Learn Go'', done_member = Some True\<rparr>\<rparr>
       = ([\<lparr>ID = 2, Task = ''Build a simple API'', Done = False\<rparr>],
          \<lparr>status = 404, content_type = Some ''text/plain; charset=utf-8'',
           resp_body = Text (''Todo not found'' @ [CHR 0x0A])\<rparr>)
   \<and> 1 \<in> ID ` set [\<lparr>ID = 1, Task = ''Learn Go'', Done = False\<rparr>]
   \<and> \<lparr>ID = 1, Task = ''Learn Go'', Done = True\<rparr> \<notin> set [\<lparr>ID = 1, Task = ''Learn Go'', Done = False\<rparr>]
   \<and> length (Task \<lparr>ID = 1, Task = ''Learn Go'', Done = True\<rparr>) \<le> 255
   \<and> UpdateHandler_db mysql_update [\<lparr>ID = 1, Task = ''Learn Go'', Done = False\<rparr>]
        \<lparr>vars_id = ''1'', req_body = Object \<lparr>id_member = Some 1, task_member = Some ''Learn Go'', done_member = Some True\<rparr>\<rparr>
       = ([\<lparr>ID = 1, Task = ''Learn Go'', Done = True\<rparr>],
          \<lparr>status = 200, content_type = Some ''application/json'',
           resp_body = JSON_Todo \<lparr>ID = 1, Task = ''Learn Go'', Done = True\<rparr>\<rparr>)
   \<and> distinct (map ID [\<lparr>ID = 1, Task = ''Learn Go'', Done = True\<rparr>])
   \<and> \<lparr>ID = 1, Task = ''Learn Go'', Done = True\<rparr> \<in> set [\<lparr>ID = 1, Task = ''Learn Go'', Done = True\<rparr>]
   \<and> UpdateHandler_db mysql_update [\<lparr>ID = 1, Task = ''Learn Go'', Done = True\<rparr>]
        \<lparr>vars_id = ''1'', req_body = Object \<lparr>id_member = Some 1, task_member = Some ''Learn Go'', done_member = Some True\<rparr>\<rparr>
       = ([\<lparr>ID = 1, Task = ''Learn Go'', Done = True\<rparr>],
          \<lparr>status = 404, content_type = Some ''text/plain; charset=utf-8'',
           resp_body = Text (''Todo not found'' @ [CHR 0x0A])\<rparr>)"
proof -
  have by_evaluation:
    "Atoi (vars_id \<lparr>vars_id = ''1'', req_body = Object \<lparr>id_member = Some 1, task_member = Some ''Learn Go'', done_member = Some True\<rparr>\<rparr>) = Some 1
      \<and> Decode (req_body \<lparr>vars_id = ''1'', req_body = Object \<lparr>id_member = Some 1, task_member = Some ''Learn Go'', done_member = Some True\<rparr>\<rparr>)
          = Inr \<lparr>ID = 1, Task = ''Learn Go'', Done = True\<rparr>
      \<and> 1 \<in> ID ` set todos_init
      \<and> snd (UpdateHandler todos_init \<lparr>vars_id = ''1'', req_body = Object \<lparr>id_member = Some 1, task_member = Some ''Learn Go'', done_member = Some True\<rparr>\<rparr>)
          = \<lparr>status = 200, content_type = Some ''application/json'',
             resp_body = JSON_Todo \<lparr>ID = 1, Task = ''Learn Go'', Done = True\<rparr>\<rparr>
      \<and> 1 \<notin> ID ` set [\<lparr>ID = 2, Task = ''Build a simple API'', Done = False\<rparr>]
      \<and> UpdateHandler [\<lparr>ID = 2, Task = ''Build a simple API'', Done = False\<rparr>]
           \<lparr>vars_id = ''1'', req_body = Object \<lparr>id_member = Some 1, task_member = Some ''Learn Go'', done_member = Some True\<rparr>\<rparr>
          = ([\<lparr>ID = 2, Task = ''Build a simple API'', Done = False\<rparr>],
             \<lparr>status = 404, content_type = Some ''text/plain; charset=utf-8'',
              resp_body = Text (''Todo not found'' @ [CHR 0x0A])\<rparr>)
      \<and> UpdateHandler_db mysql_update [\<lparr>ID = 2, Task = ''Build a simple API'', Done = False\<rparr>]
           \<lparr>vars_id = ''1'', req_body = Object \<lparr>id_member = Some 1, task_member = Some ''Learn Go'', done_member = Some True\<rparr>\<rparr>
          = ([\<lparr>ID = 2, Task = ''Build a simple API'', Done = False\<rparr>],
             \<lparr>status = 404, content_type = Some ''text/plain; charset=utf-8'',
              resp_body = Text (''Todo not found'' @ [CHR 0x0A])\<rparr>)
      \<and> 1 \<in> ID ` set [\<lparr>ID = 1, Task = ''Learn Go'', Done = False\<rparr>]
      \<and> \<lparr>ID = 1, Task = ''Learn Go'', Done = True\<rparr> \<notin> set [\<lparr>ID = 1, Task = ''Learn Go'', Done = False\<rparr>]
      \<and> length (Task \<lparr>ID = 1, Task = ''Learn Go'', Done = True\<rparr>) \<le> 255
      \<and> UpdateHandler_db mysql_update [\<lparr>ID = 1, Task = ''Learn Go'', Done = False\<rparr>]
           \<lparr>vars_id = ''1'', req_body = Object \<lparr>id_member = Some 1, task_member = Some ''Learn Go'', done_member = Some True\<rparr>\<rparr>
          = ([\<lparr>ID = 1, Task = ''Learn Go'', Done = True\<rparr>],
             \<lparr>status = 200, content_type = Some ''application/json'',
              resp_body = JSON_Todo \<lparr>ID = 1, Task = ''Learn Go'', Done = True\<rparr>\<rparr>)
      \<and> distinct (map ID [\<lparr>ID = 1, Task = ''Learn Go'', Done = True\<rparr>])
      \<and> \<lparr>ID = 1, Task = ''Learn Go'', Done = True\<rparr> \<in> set [\<lparr>ID = 1, Task = ''Learn Go'', Done = True\<rparr>]
      \<and> UpdateHandler_db mysql_update [\<lparr>ID = 1, Task = ''Learn Go'', Done = True\<rparr>]
           \<lparr>vars_id = ''1'', req_body = Object \<lparr>id_member = Some 1, task_member = Some ''Learn Go'', done_member = Some True\<rparr>\<rparr>
          = ([\<lparr>ID = 1, Task = ''Learn Go'', Done = True\<rparr>],
             \<lparr>status = 404, content_type = Some ''text/plain; charset=utf-8'',
              resp_body = Text (''Todo not found'' @ [CHR 0x0A])\<rparr>)"
    by (simp add: todos_init_def CreateHandler_def DeleteHandler_def UpdateHandler_def
        ReadHandler_def ListHandler_def UpdateHandler_db_def mysql_update_def Decode_def Atoi_def
        is_digit_def Let_def word_sless_alt word_sle_eq slices_Delete_def assigned_id_def
        creates_def json_response_def http_Error_def StatusOK_def StatusCreated_def
        StatusNoContent_def StatusBadRequest_def StatusNotFound_def StatusConflict_def)
  let ?r = "\<lparr>vars_id = ''1'', req_body = Object \<lparr>id_member = Some 1, task_member = Some ''Learn Go'', done_member = Some True\<rparr>\<rparr>"
  let ?d = "\<lparr>ID = 1, Task = ''Learn Go'', Done = True\<rparr>"
  let ?only2 = "[\<lparr>ID = 2, Task = ''Build a simple API'', Done = False\<rparr>]"
  let ?rows0 = "[\<lparr>ID = 1, Task = ''Learn Go'', Done = False\<rparr>]"
  let ?rows1 = "[\<lparr>ID = 1, Task = ''Learn Go'', Done = True\<rparr>]"
  have a: "Atoi (vars_id ?r) = Some 1" by (simp add: Atoi_def is_digit_def)
  have d: "Decode (req_body ?r) = Inr ?d" by (simp add: Decode_def)
  have i: "ID ?d = 1" by simp
  have m1: "1 \<in> ID ` set todos_init" by (simp add: todos_init_def)
  have m2: "1 \<notin> ID ` set ?only2" by simp
  have m3: "1 \<in> ID ` set ?rows0" by simp
  have m4: "?d \<notin> set ?rows0" by simp
  have m5: "length (Task ?d) \<le> 255" by simp
  have m6: "distinct (map ID ?rows1)" by simp
  have m7: "?d \<in> set ?rows1" by simp
  note w = update_reports_not_found [OF a d i]
  note mem_found = w [of todos_init "[]", THEN conjunct2, THEN conjunct2, THEN conjunct1, rule_format]
  note mem_missing = w [of ?only2 ?only2, THEN conjunct2, THEN conjunct1, rule_format]
  note db_missing = w [of "[]" ?only2, THEN conjunct2, THEN conjunct2, THEN conjunct2,
      THEN conjunct1, rule_format]
  note db_changed = w [of "[]" ?rows0, THEN conjunct2, THEN conjunct2, THEN conjunct2,
      THEN conjunct2, THEN conjunct1, rule_format]
  note db_same = w [of "[]" ?rows1, THEN conjunct2, THEN conjunct2, THEN conjunct2,
      THEN conjunct2, THEN conjunct2, rule_format]
  from mem_found [OF m1] have c1: "snd (UpdateHandler todos_init ?r)
       = \<lparr>status = 200, content_type = Some ''application/json'', resp_body = JSON_Todo ?d\<rparr>"
    by (rule conjunct1)
  note c2 = mem_missing [OF m2]
  note c3 = db_missing [OF m2]
  from db_changed [OF conjI [OF m3 conjI [OF m4 m5]]]
  have c4: "UpdateHandler_db mysql_update ?rows0 ?r
       = (?rows1, \<lparr>status = 200, content_type = Some ''application/json'', resp_body = JSON_Todo ?d\<rparr>)"
    by simp
  note c5 = db_same [OF conjI [OF m6 m7]]
  show ?thesis using a d m1 c1 m2 c2 c3 m3 m4 m5 c4 m6 m7 c5 by (intro conjI)
qed

text \<open>
  C5. An Update whose body identifier differs from its path identifier answers 409 and
  leaves the stored collection exactly as it was; the table-backed variant answers 409
  before it executes any statement.
\<close>

theorem update_mismatch_conflict:
  assumes "Atoi (vars_id r) = Some i" and "Decode (req_body r) = Inr data" and "ID data \<noteq> i"
  shows
    "UpdateHandler todos r =
       (todos, http_Error ''Id in url doesn't match the id in the body'' StatusConflict)
     \<and> status (snd (UpdateHandler todos r)) = 409
     \<and> fst (UpdateHandler todos r) = todos
     \<and> UpdateHandler_db exec_update db r =
       (db, http_Error ''Id in url doesn't match the id in the body'' StatusConflict)"
  using assms
  by (auto simp: UpdateHandler_def UpdateHandler_db_def http_Error_def StatusConflict_def)

theorem update_mismatch_conflict_witness:
  "Atoi (vars_id \<lparr>vars_id = ''1'', req_body = Object \<lparr>id_member = Some 2, task_member = Some ''Learn Go'', done_member = Some True\<rparr>\<rparr>) = Some 1
   \<and> Decode (req_body \<lparr>vars_id = ''1'', req_body = Object \<lparr>id_member = Some 2, task_member = Some ''Learn Go'', done_member = Some True\<rparr>\<rparr>)
       = Inr \<lparr>ID = 2, Task = ''Learn Go'', Done = True\<rparr>
   \<and> ID \<lparr>ID = 2, Task = ''Learn Go'', Done = True\<rparr> \<noteq> 1
   \<and> UpdateHandler todos_init \<lparr>vars_id = ''1'', req_body = Object \<lparr>id_member = Some 2, task_member = Some ''Learn Go'', done_member = Some True\<rparr>\<rparr>
       = (todos_init, http_Error ''Id in url doesn't match the id in the body'' StatusConflict)"
proof -
  have by_evaluation:
    "Atoi (vars_id \<lparr>vars_id = ''1'', req_body = Object \<lparr>id_member = Some 2, task_member = Some ''Learn Go'', done_member = Some True\<rparr>\<rparr>) = Some 1
      \<and> Decode (req_body \<lparr>vars_id = ''1'', req_body = Object \<lparr>id_member = Some 2, task_member = Some ''Learn Go'', done_member = Some True\<rparr>\<rparr>)
          = Inr \<lparr>ID = 2, Task = ''Learn Go'', Done = True\<rparr>
      \<and> ID \<lparr>ID = 2, Task = ''Learn Go'', Done = True\<rparr> \<noteq> 1
      \<and> UpdateHandler todos_init \<lparr>vars_id = ''1'', req_body = Object \<lparr>id_member = Some 2, task_member = Some ''Learn Go'', done_member = Some True\<rparr>\<rparr>
          = (todos_init, http_Error ''Id in url doesn't match the id in the body'' StatusConflict)"
    by (simp add: todos_init_def CreateHandler_def DeleteHandler_def UpdateHandler_def
        ReadHandler_def ListHandler_def UpdateHandler_db_def mysql_update_def Decode_def Atoi_def
        is_digit_def Let_def word_sless_alt word_sle_eq slices_Delete_def assigned_id_def
        creates_def json_response_def http_Error_def StatusOK_def StatusCreated_def
        StatusNoContent_def StatusBadRequest_def StatusNotFound_def StatusConflict_def)
  let ?r = "\<lparr>vars_id = ''1'', req_body = Object \<lparr>id_member = Some 2, task_member = Some ''Learn Go'', done_member = Some True\<rparr>\<rparr>"
  let ?d = "\<lparr>ID = 2, Task = ''Learn Go'', Done = True\<rparr>"
  have a: "Atoi (vars_id ?r) = Some 1" by (simp add: Atoi_def is_digit_def)
  have d: "Decode (req_body ?r) = Inr ?d" by (simp add: Decode_def)
  have n: "ID ?d \<noteq> 1" by simp
  from update_mismatch_conflict [OF a d n, of todos_init undefined "()"] a d n
  show ?thesis by simp
qed

lemma UpdateHandler_positions:
  assumes "Atoi (vars_id r) = Some i" and "Decode (req_body r) = Inr data" and "ID data = i"
    and "i \<in> ID ` set todos"
  shows
    "\<exists>k<length todos.
       ID (todos ! k) = i \<and> (\<forall>j<k. ID (todos ! j) \<noteq> i)
       \<and> fst (UpdateHandler todos r) = todos[k := data]
       \<and> fst (UpdateHandler todos r) ! k = \<lparr>ID = i, Task = Task data, Done = Done data\<rparr>
       \<and> (\<forall>j<length todos. j \<noteq> k \<longrightarrow> fst (UpdateHandler todos r) ! j = todos ! j)
       \<and> length (fst (UpdateHandler todos r)) = length todos
       \<and> map ID (fst (UpdateHandler todos r)) = map ID todos
       \<and> snd (UpdateHandler todos r)
           = json_response StatusOK (JSON_Todo (fst (UpdateHandler todos r) ! k))"
proof -
  from UpdateHandler_found [OF assms] obtain k where
    k: "k < length todos" and hit: "ID (todos ! k) = i"
    and first: "\<forall>j<k. ID (todos ! j) \<noteq> i"
    and upd: "UpdateHandler todos r = (todos[k := data], json_response StatusOK (JSON_Todo data))"
    by blast
  have rec: "data = \<lparr>ID = i, Task = Task data, Done = Done data\<rparr>"
    using assms(3) by simp
  have ids: "map ID (todos[k := data]) = map ID todos"
    using k hit assms(3) by (simp add: map_update list_update_same_conv)
  have at: "todos[k := data] ! k = data" using k by simp
  have others: "\<forall>j<length todos. j \<noteq> k \<longrightarrow> todos[k := data] ! j = todos ! j" by simp
  show ?thesis
  proof (intro exI [of _ k] conjI)
    show "k < length todos" by (rule k)
    show "ID (todos ! k) = i" by (rule hit)
    show "\<forall>j<k. ID (todos ! j) \<noteq> i" by (rule first)
    show "fst (UpdateHandler todos r) = todos[k := data]" by (simp add: upd)
    show "fst (UpdateHandler todos r) ! k = \<lparr>ID = i, Task = Task data, Done = Done data\<rparr>"
      using at rec by (simp add: upd)
    show "\<forall>j<length todos. j \<noteq> k \<longrightarrow> fst (UpdateHandler todos r) ! j = todos ! j"
      using others by (simp add: upd)
    show "length (fst (UpdateHandler todos r)) = length todos" by (simp add: upd)
    show "map ID (fst (UpdateHandler todos r)) = map ID todos" using ids by (simp add: upd)
    show "snd (UpdateHandler todos r)
           = json_response StatusOK (JSON_Todo (fst (UpdateHandler todos r) ! k))"
      using at by (simp add: upd)
  qed
qed

text \<open>
  C6. A successful Update of \<open>i\<close> writes the body's item at the position \<open>k\<close> of the first
  item whose identifier is \<open>i\<close>: that position then holds the identifier \<open>i\<close> with the
  body's task and completion flag, every other position holds what it held, length and
  order (and with them all identifiers) are as before, and the response carries the
  stored item.
\<close>

theorem update_replaces_one_item:
  assumes "Atoi (vars_id r) = Some i" and "Decode (req_body r) = Inr data" and "ID data = i"
    and "i \<in> ID ` set todos"
  shows
    "(\<exists>k<length todos.
       ID (todos ! k) = i \<and> (\<forall>j<k. ID (todos ! j) \<noteq> i)
       \<and> fst (UpdateHandler todos r) = todos[k := data]
       \<and> fst (UpdateHandler todos r) ! k = \<lparr>ID = i, Task = Task data, Done = Done data\<rparr>
       \<and> (\<forall>j<length todos. j \<noteq> k \<longrightarrow> fst (UpdateHandler todos r) ! j = todos ! j)
       \<and> length (fst (UpdateHandler todos r)) = length todos
       \<and> map ID (fst (UpdateHandler todos r)) = map ID todos
       \<and> snd (UpdateHandler todos r)
           = json_response StatusOK (JSON_Todo (fst (UpdateHandler todos r) ! k))
       \<and> snd (UpdateHandler todos r)
           = \<lparr>status = 200, content_type = Some ''application/json'',
              resp_body = JSON_Todo (fst (UpdateHandler todos r) ! k)\<rparr>)
     \<and> snd (UpdateHandler todos r)
           = \<lparr>status = 200, content_type = Some ''application/json'',
              resp_body = JSON_Todo \<lparr>ID = i, Task = Task data, Done = Done data\<rparr>\<rparr>"
proof -
  from UpdateHandler_positions [OF assms] obtain k where
    k: "k < length todos" "ID (todos ! k) = i" "\<forall>j<k. ID (todos ! j) \<noteq> i"
      "fst (UpdateHandler todos r) = todos[k := data]"
      "fst (UpdateHandler todos r) ! k = \<lparr>ID = i, Task = Task data, Done = Done data\<rparr>"
      "\<forall>j<length todos. j \<noteq> k \<longrightarrow> fst (UpdateHandler todos r) ! j = todos ! j"
      "length (fst (UpdateHandler todos r)) = length todos"
      "map ID (fst (UpdateHandler todos r)) = map ID todos"
    and rs: "snd (UpdateHandler todos r)
           = json_response StatusOK (JSON_Todo (fst (UpdateHandler todos r) ! k))"
    by blast
  from rs have pinned: "snd (UpdateHandler todos r)
           = \<lparr>status = 200, content_type = Some ''application/json'',
              resp_body = JSON_Todo (fst (UpdateHandler todos r) ! k)\<rparr>"
    by (simp add: json_response_def StatusOK_def)
  with k(5) have item: "snd (UpdateHandler todos r)
           = \<lparr>status = 200, content_type = Some ''application/json'',
              resp_body = JSON_Todo \<lparr>ID = i, Task = Task data, Done = Done data\<rparr>\<rparr>"
    by simp
  from k rs pinned item show ?thesis by blast
qed

theorem update_replaces_one_item_witness:
  "Atoi (vars_id \<lparr>vars_id = ''1'', req_body = Object \<lparr>id_member = Some 1, task_member = Some ''Learn Go'', done_member = Some False\<rparr>\<rparr>) = Some 1
   \<and> Decode (req_body \<lparr>vars_id = ''1'', req_body = Object \<lparr>id_member = Some 1, task_member = Some ''Learn Go'', done_member = Some False\<rparr>\<rparr>)
       = Inr \<lparr>ID = 1, Task = ''Learn Go'', Done = False\<rparr>
   \<and> 1 \<in> ID ` set todos_init
   \<and> fst (UpdateHandler todos_init \<lparr>vars_id = ''1'', req_body = Object \<lparr>id_member = Some 1, task_member = Some ''Learn Go'', done_member = Some False\<rparr>\<rparr>)
       = [\<lparr>ID = 1, Task = ''Learn Go'', Done = False\<rparr>, \<lparr>ID = 2, Task = ''Build a simple API'', Done = False\<rparr>]
   \<and> snd (UpdateHandler todos_init \<lparr>vars_id = ''1'', req_body = Object \<lparr>id_member = Some 1, task_member = Some ''Learn Go'', done_member = Some False\<rparr>\<rparr>)
       = \<lparr>status = 200, content_type = Some ''application/json'',
          resp_body = JSON_Todo \<lparr>ID = 1, Task = ''Learn Go'', Done = False\<rparr>\<rparr>"
proof -
  have by_evaluation:
    "Atoi (vars_id \<lparr>vars_id = ''1'', req_body = Object \<lparr>id_member = Some 1, task_member = Some ''Learn Go'', done_member = Some False\<rparr>\<rparr>) = Some 1
      \<and> Decode (req_body \<lparr>vars_id = ''1'', req_body = Object \<lparr>id_member = Some 1, task_member = Some ''Learn Go'', done_member = Some False\<rparr>\<rparr>)
          = Inr \<lparr>ID = 1, Task = ''Learn Go'', Done = False\<rparr>
      \<and> 1 \<in> ID ` set todos_init
      \<and> fst (UpdateHandler todos_init \<lparr>vars_id = ''1'', req_body = Object \<lparr>id_member = Some 1, task_member = Some ''Learn Go'', done_member = Some False\<rparr>\<rparr>)
          = [\<lparr>ID = 1, Task = ''Learn Go'', Done = False\<rparr>, \<lparr>ID = 2, Task = ''Build a simple API'', Done = False\<rparr>]
      \<and> snd (UpdateHandler todos_init \<lparr>vars_id = ''1'', req_body = Object \<lparr>id_member = Some 1, task_member = Some ''Learn Go'', done_member = Some False\<rparr>\<rparr>)
          = \<lparr>status = 200, content_type = Some ''application/json'',
             resp_body = JSON_Todo \<lparr>ID = 1, Task = ''Learn Go'', Done = False\<rparr>\<rparr>"
    by (simp add: todos_init_def CreateHandler_def DeleteHandler_def UpdateHandler_def
        ReadHandler_def ListHandler_def UpdateHandler_db_def mysql_update_def Decode_def Atoi_def
        is_digit_def Let_def word_sless_alt word_sle_eq slices_Delete_def assigned_id_def
        creates_def json_response_def http_Error_def StatusOK_def StatusCreated_def
        StatusNoContent_def StatusBadRequest_def StatusNotFound_def StatusConflict_def)
  let ?r = "\<lparr>vars_id = ''1'', req_body = Object \<lparr>id_member = Some 1, task_member = Some ''Learn Go'', done_member = Some False\<rparr>\<rparr>"
  let ?d = "\<lparr>ID = 1, Task = ''Learn Go'', Done = False\<rparr>"
  have a: "Atoi (vars_id ?r) = Some 1" by (simp add: Atoi_def is_digit_def)
  have d: "Decode (req_body ?r) = Inr ?d" by (simp add: Decode_def)
  have i: "ID ?d = 1" by simp
  have m: "1 \<in> ID ` set todos_init" by (simp add: todos_init_def)
  note w = update_replaces_one_item [OF a d i m]
  from w obtain k where
    k: "k < length todos_init" and hit: "ID (todos_init ! k) = 1"
    and st: "fst (UpdateHandler todos_init ?r) = todos_init[k := ?d]"
    by blast
  from w have rs: "snd (UpdateHandler todos_init ?r)
       = \<lparr>status = 200, content_type = Some ''application/json'', resp_body = JSON_Todo ?d\<rparr>"
    by simp
  from k hit have "k = 0" by (auto simp: todos_init_def less_Suc_eq)
  with st have st': "fst (UpdateHandler todos_init ?r)
       = [\<lparr>ID = 1, Task = ''Learn Go'', Done = False\<rparr>, \<lparr>ID = 2, Task = ''Build a simple API'', Done = False\<rparr>]"
    by (simp add: todos_init_def)
  show ?thesis using a d m st' rs by (intro conjI)
qed

lemma DeleteHandler_missing:
  assumes "Atoi (vars_id r) = Some i" and "i \<notin> ID ` set todos"
  shows "DeleteHandler todos r = (todos, http_Error ''Todo not found'' StatusNotFound)"
proof -
  from assms(2) have "IndexFunc todos (\<lambda>t. ID t = i) = - 1"
    by (auto simp: IndexFunc_none_iff)
  with assms(1) show ?thesis by (simp add: DeleteHandler_def Let_def)
qed

lemma DeleteHandler_found:
  assumes "Atoi (vars_id r) = Some i" and "i \<in> ID ` set todos"
  shows "\<exists>k<length todos. ID (todos ! k) = i \<and> (\<forall>j<k. ID (todos ! j) \<noteq> i) \<and>
           DeleteHandler todos r =
             (take k todos @ drop (Suc k) todos,
              \<lparr>status = StatusNoContent, content_type = None, resp_body = Empty\<rparr>)"
proof -
  let ?idx = "IndexFunc todos (\<lambda>t. ID t = i)"
  from assms(2) have ne: "?idx \<noteq> - 1" by (auto simp: IndexFunc_none_iff)
  with IndexFunc_range [of todos "\<lambda>t. ID t = i"]
  have range: "0 \<le> ?idx" "?idx < int (length todos)" by auto
  then have k: "nat ?idx < length todos" by simp
  from range have suc: "nat (?idx + 1) = Suc (nat ?idx)" by simp
  have hit: "ID (todos ! nat ?idx) = i" using IndexFunc_hit [OF ne] .
  have first: "\<forall>j<nat ?idx. ID (todos ! j) \<noteq> i"
    using IndexFunc_first [OF _ ne] by blast
  have "DeleteHandler todos r =
      (take (nat ?idx) todos @ drop (Suc (nat ?idx)) todos,
       \<lparr>status = StatusNoContent, content_type = None, resp_body = Empty\<rparr>)"
    using assms(1) ne suc by (simp add: DeleteHandler_def Let_def slices_Delete_def)
  with k hit first show ?thesis by blast
qed

lemma ReadHandler_missing:
  assumes "Atoi (vars_id r) = Some i" and "i \<notin> ID ` set todos"
  shows "ReadHandler todos r = (todos, http_Error ''Todo not found'' StatusNotFound)"
proof -
  from assms(2) have "find_todo todos i = None" by (simp add: find_todo_None_iff)
  with assms(1) show ?thesis by (simp add: ReadHandler_def)
qed

lemma remove_only_occurrence:
  assumes k: "k < length ts" and hit: "ID (ts ! k) = i" and first: "\<forall>j<k. ID (ts ! j) \<noteq> i"
    and one: "length (filter (\<lambda>t. ID t = i) ts) = 1"
  shows "take k ts @ drop (Suc k) ts = filter (\<lambda>t. ID t \<noteq> i) ts"
    and "i \<notin> ID ` set (take k ts @ drop (Suc k) ts)"
proof -
  have split: "ts = take k ts @ ts ! k # drop (Suc k) ts"
    using k by (simp add: id_take_nth_drop)
  have pre: "\<forall>t\<in>set (take k ts). ID t \<noteq> i"
  proof
    fix t assume "t \<in> set (take k ts)"
    then obtain j where "j < length (take k ts)" "take k ts ! j = t"
      by (auto simp: in_set_conv_nth)
    with first k show "ID t \<noteq> i" by auto
  qed
  then have fpre: "filter (\<lambda>t. ID t = i) (take k ts) = []" by (simp add: filter_empty_conv)
  have "length (filter (\<lambda>t. ID t = i) ts)
      = length (filter (\<lambda>t. ID t = i) (take k ts @ ts ! k # drop (Suc k) ts))"
    using split by simp
  also have "\<dots> = Suc (length (filter (\<lambda>t. ID t = i) (drop (Suc k) ts)))"
    using fpre hit by simp
  finally have "filter (\<lambda>t. ID t = i) (drop (Suc k) ts) = []" using one by simp
  then have post: "\<forall>t\<in>set (drop (Suc k) ts). ID t \<noteq> i" by (simp add: filter_empty_conv)
  have "filter (\<lambda>t. ID t \<noteq> i) ts
      = filter (\<lambda>t. ID t \<noteq> i) (take k ts @ ts ! k # drop (Suc k) ts)"
    using split by simp
  also have "\<dots> = take k ts @ drop (Suc k) ts"
    using pre post hit by (simp add: filter_id_conv)
  finally show "take k ts @ drop (Suc k) ts = filter (\<lambda>t. ID t \<noteq> i) ts" by simp
  from pre post show "i \<notin> ID ` set (take k ts @ drop (Suc k) ts)" by auto
qed

lemma DeleteHandler_twice:
  assumes "Atoi (vars_id r) = Some i" and "length (filter (\<lambda>t. ID t = i) todos) = 1"
  shows
    "(let todos' = fst (DeleteHandler todos r) in
        snd (DeleteHandler todos r)
          = \<lparr>status = StatusNoContent, content_type = None, resp_body = Empty\<rparr>
        \<and> todos' = filter (\<lambda>t. ID t \<noteq> i) todos
        \<and> i \<notin> ID ` set todos'
        \<and> length todos' + 1 = length todos
        \<and> DeleteHandler todos' r = (todos', http_Error ''Todo not found'' StatusNotFound)
        \<and> ReadHandler todos' r = (todos', http_Error ''Todo not found'' StatusNotFound))"
proof -
  from assms(2) have "filter (\<lambda>t. ID t = i) todos \<noteq> []" by auto
  then have mem: "i \<in> ID ` set todos" by (auto simp: filter_empty_conv)
  from DeleteHandler_found [OF assms(1) mem] obtain k where
    k: "k < length todos" and hit: "ID (todos ! k) = i"
    and first: "\<forall>j<k. ID (todos ! j) \<noteq> i"
    and del: "DeleteHandler todos r =
      (take k todos @ drop (Suc k) todos,
       \<lparr>status = StatusNoContent, content_type = None, resp_body = Empty\<rparr>)"
    by blast
  let ?t = "take k todos @ drop (Suc k) todos"
  note rem = remove_only_occurrence [OF k hit first assms(2)]
  have len: "length ?t + 1 = length todos" using k by simp
  have again: "DeleteHandler ?t r = (?t, http_Error ''Todo not found'' StatusNotFound)"
    using DeleteHandler_missing [OF assms(1) rem(2)] .
  have read: "ReadHandler ?t r = (?t, http_Error ''Todo not found'' StatusNotFound)"
    using ReadHandler_missing [OF assms(1) rem(2)] .
  show ?thesis
    unfolding Let_def del fst_conv snd_conv
    using rem len again read by (intro conjI) simp_all
qed

text \<open>
  C7. In a state that holds one item with identifier \<open>i\<close> (identifiers are unique in the
  data model), Delete of \<open>i\<close> answers 204 with no body and removes that item and nothing
  else. In the state after it, a second Delete of \<open>i\<close> answers 404 and leaves the state as
  it is, so the end state is the state after the first Delete, and a Read of \<open>i\<close> answers
  404 as well.
\<close>

theorem delete_then_delete_not_found:
  assumes "Atoi (vars_id r) = Some i" and "length (filter (\<lambda>t. ID t = i) todos) = 1"
  shows
    "(let todos' = fst (DeleteHandler todos r) in
        snd (DeleteHandler todos r) = \<lparr>status = 204, content_type = None, resp_body = Empty\<rparr>
        \<and> todos' = filter (\<lambda>t. ID t \<noteq> i) todos
        \<and> i \<notin> ID ` set todos'
        \<and> length todos' + 1 = length todos
        \<and> DeleteHandler todos' r =
            (todos',
             \<lparr>status = 404, content_type = Some ''text/plain; charset=utf-8'',
              resp_body = Text (''Todo not found'' @ [CHR 0x0A])\<rparr>)
        \<and> ReadHandler todos' r =
            (todos',
             \<lparr>status = 404, content_type = Some ''text/plain; charset=utf-8'',
              resp_body = Text (''Todo not found'' @ [CHR 0x0A])\<rparr>))"
proof -
  have nf: "\<lparr>status = 404, content_type = Some ''text/plain; charset=utf-8'',
      resp_body = Text (''Todo not found'' @ [CHR 0x0A])\<rparr>
    = http_Error ''Todo not found'' StatusNotFound"
    by (simp add: http_Error_def StatusNotFound_def)
  have nc: "\<lparr>status = 204, content_type = None, resp_body = Empty\<rparr>
    = \<lparr>status = StatusNoContent, content_type = None, resp_body = Empty\<rparr>"
    by (simp add: StatusNoContent_def)
  show ?thesis unfolding nf nc by (rule DeleteHandler_twice [OF assms])
qed

theorem delete_then_delete_not_found_witness:
  "Atoi (vars_id \<lparr>vars_id = ''1'', req_body = Undecodable ''EOF''\<rparr>) = Some 1
   \<and> length (filter (\<lambda>t. ID t = 1) todos_init) = 1
   \<and> DeleteHandler todos_init \<lparr>vars_id = ''1'', req_body = Undecodable ''EOF''\<rparr>
       = ([\<lparr>ID = 2, Task = ''Build a simple API'', Done = False\<rparr>],
          \<lparr>status = 204, content_type = None, resp_body = Empty\<rparr>)
   \<and> DeleteHandler [\<lparr>ID = 2, Task = ''Build a simple API'', Done = False\<rparr>]
        \<lparr>vars_id = ''1'', req_body = Undecodable ''EOF''\<rparr>
       = ([\<lparr>ID = 2, Task = ''Build a simple API'', Done = False\<rparr>],
          \<lparr>status = 404, content_type = Some ''text/plain; charset=utf-8'',
           resp_body = Text (''Todo not found'' @ [CHR 0x0A])\<rparr>)
   \<and> ReadHandler [\<lparr>ID = 2, Task = ''Build a simple API'', Done = False\<rparr>]
        \<lparr>vars_id = ''1'', req_body = Undecodable ''EOF''\<rparr>
       = ([\<lparr>ID = 2, Task = ''Build a simple API'', Done = False\<rparr>],
          \<lparr>status = 404, content_type = Some ''text/plain; charset=utf-8'',
           resp_body = Text (''Todo not found'' @ [CHR 0x0A])\<rparr>)"
proof -
  have by_evaluation:
    "Atoi (vars_id \<lparr>vars_id = ''1'', req_body = Undecodable ''EOF''\<rparr>) = Some 1
      \<and> length (filter (\<lambda>t. ID t = 1) todos_init) = 1
      \<and> DeleteHandler todos_init \<lparr>vars_id = ''1'', req_body = Undecodable ''EOF''\<rparr>
          = ([\<lparr>ID = 2, Task = ''Build a simple API'', Done = False\<rparr>],
             \<lparr>status = 204, content_type = None, resp_body = Empty\<rparr>)
      \<and> DeleteHandler [\<lparr>ID = 2, Task = ''Build a simple API'', Done = False\<rparr>]
           \<lparr>vars_id = ''1'', req_body = Undecodable ''EOF''\<rparr>
          = ([\<lparr>ID = 2, Task = ''Build a simple API'', Done = False\<rparr>],
             \<lparr>status = 404, content_type = Some ''text/plain; charset=utf-8'',
              resp_body = Text (''Todo not found'' @ [CHR 0x0A])\<rparr>)
      \<and> ReadHandler [\<lparr>ID = 2, Task = ''Build a simple API'', Done = False\<rparr>]
           \<lparr>vars_id = ''1'', req_body = Undecodable ''EOF''\<rparr>
          = ([\<lparr>ID = 2, Task = ''Build a simple API'', Done = False\<rparr>],
             \<lparr>status = 404, content_type = Some ''text/plain; charset=utf-8'',
              resp_body = Text (''Todo not found'' @ [CHR 0x0A])\<rparr>)"
    by (simp add: todos_init_def CreateHandler_def DeleteHandler_def UpdateHandler_def
        ReadHandler_def ListHandler_def UpdateHandler_db_def mysql_update_def Decode_def Atoi_def
        is_digit_def Let_def word_sless_alt word_sle_eq slices_Delete_def assigned_id_def
        creates_def json_response_def http_Error_def StatusOK_def StatusCreated_def
        StatusNoContent_def StatusBadRequest_def StatusNotFound_def StatusConflict_def)
  let ?r = "\<lparr>vars_id = ''1'', req_body = Undecodable ''EOF''\<rparr>"
  let ?nf = "\<lparr>status = 404, content_type = Some ''text/plain; charset=utf-8'',
           resp_body = Text (''Todo not found'' @ [CHR 0x0A])\<rparr>"
  have a: "Atoi (vars_id ?r) = Some 1" by (simp add: Atoi_def is_digit_def)
  have one: "length (filter (\<lambda>t. ID t = 1) todos_init) = 1" by (simp add: todos_init_def)
  have f: "filter (\<lambda>t. ID t \<noteq> 1) todos_init = [\<lparr>ID = 2, Task = ''Build a simple API'', Done = False\<rparr>]"
    by (simp add: todos_init_def)
  note w = delete_then_delete_not_found [OF a one, unfolded Let_def f]
  let ?t = "[\<lparr>ID = 2, Task = ''Build a simple API'', Done = False\<rparr>]"
  from w have st: "fst (DeleteHandler todos_init ?r) = ?t" by blast
  from w have rs: "snd (DeleteHandler todos_init ?r)
      = \<lparr>status = 204, content_type = None, resp_body = Empty\<rparr>" by blast
  from w have "DeleteHandler (fst (DeleteHandler todos_init ?r)) ?r
      = (fst (DeleteHandler todos_init ?r), ?nf)" by blast
  then have again: "DeleteHandler ?t ?r = (?t, ?nf)"
    unfolding st .
  from w have "ReadHandler (fst (DeleteHandler todos_init ?r)) ?r
      = (fst (DeleteHandler todos_init ?r), ?nf)" by blast
  then have read: "ReadHandler ?t ?r = (?t, ?nf)"
    unfolding st .
  have first: "DeleteHandler todos_init ?r
      = (?t, \<lparr>status = 204, content_type = None, resp_body = Empty\<rparr>)"
    using st rs by (simp add: prod_eq_iff)
  show ?thesis using a one first again read by (intro conjI)
qed

text \<open>
  C9. Update does not validate the task. In the in-memory variant, in a state that holds an
  item with identifier \<open>i\<close>, an Update of \<open>i\<close> whose body has identifier \<open>i\<close> and an empty
  task answers 200 and stores an item with an empty task in that item's place, although
  Create answers 400 to the same body and stores nothing. The table-backed variant does
  the same as long as the row differs from the body; when the row already holds the empty
  task and the body's flag (after the same Update, for one), no row is affected and the
  handler answers 404.
\<close>

theorem update_accepts_empty_task:
  assumes "Atoi (vars_id r) = Some i" and "Decode (req_body r) = Inr data" and "ID data = i"
    and "Task data = []" and "i \<in> ID ` set todos"
  shows
    "snd (UpdateHandler todos r)
         = \<lparr>status = 200, content_type = Some ''application/json'',
            resp_body = JSON_Todo \<lparr>ID = i, Task = [], Done = Done data\<rparr>\<rparr>
     \<and> (\<exists>k<length todos.
           ID (todos ! k) = i
           \<and> fst (UpdateHandler todos r) = todos[k := \<lparr>ID = i, Task = [], Done = Done data\<rparr>]
           \<and> Task (fst (UpdateHandler todos r) ! k) = [])
     \<and> CreateHandler todos r
         = (todos, \<lparr>status = 400, content_type = Some ''text/plain; charset=utf-8'',
                     resp_body = Text (''Task is empty'' @ [CHR 0x0A])\<rparr>)
     \<and> (i \<in> ID ` set rows \<and> \<lparr>ID = i, Task = [], Done = Done data\<rparr> \<notin> set rows \<longrightarrow>
          UpdateHandler_db mysql_update rows r
            = (map (\<lambda>row. if ID row = i then \<lparr>ID = i, Task = [], Done = Done data\<rparr> else row) rows,
               \<lparr>status = 200, content_type = Some ''application/json'',
                resp_body = JSON_Todo \<lparr>ID = i, Task = [], Done = Done data\<rparr>\<rparr>))
     \<and> (distinct (map ID rows) \<and> \<lparr>ID = i, Task = [], Done = Done data\<rparr> \<in> set rows \<longrightarrow>
          UpdateHandler_db mysql_update rows r
            = (rows, \<lparr>status = 404, content_type = Some ''text/plain; charset=utf-8'',
                       resp_body = Text (''Todo not found'' @ [CHR 0x0A])\<rparr>))"
proof -
  let ?e = "\<lparr>ID = i, Task = [], Done = Done data\<rparr>"
  have rec: "data = ?e" using assms(3,4) by simp
  from UpdateHandler_found [OF assms(1-3) assms(5)] obtain k where
    k: "k < length todos" and hit: "ID (todos ! k) = i"
    and upd: "UpdateHandler todos r = (todos[k := data], json_response StatusOK (JSON_Todo data))"
    by blast
  from upd have upd': "UpdateHandler todos r = (todos[k := ?e], json_response StatusOK (JSON_Todo ?e))"
    by (subst (asm) (1 2) rec) 
  have rs: "snd (UpdateHandler todos r)
      = \<lparr>status = 200, content_type = Some ''application/json'', resp_body = JSON_Todo ?e\<rparr>"
    by (simp add: upd' json_response_def StatusOK_def)
  have stored: "\<exists>k<length todos.
           ID (todos ! k) = i
           \<and> fst (UpdateHandler todos r) = todos[k := ?e]
           \<and> Task (fst (UpdateHandler todos r) ! k) = []"
  proof (intro exI [of _ k] conjI)
    show "k < length todos" by (rule k)
    show "ID (todos ! k) = i" by (rule hit)
    show "fst (UpdateHandler todos r) = todos[k := ?e]" by (simp add: upd')
    show "Task (fst (UpdateHandler todos r) ! k) = []" using k by (simp add: upd')
  qed
  have cr: "CreateHandler todos r
      = (todos, \<lparr>status = 400, content_type = Some ''text/plain; charset=utf-8'',
                  resp_body = Text (''Task is empty'' @ [CHR 0x0A])\<rparr>)"
    using assms(2,4) by (simp add: CreateHandler_def http_Error_def StatusBadRequest_def)
  note db = UpdateHandler_db_mysql [OF assms(1-3), of rows]
  show ?thesis
  proof (intro conjI impI)
    show "snd (UpdateHandler todos r)
      = \<lparr>status = 200, content_type = Some ''application/json'', resp_body = JSON_Todo ?e\<rparr>"
      by (rule rs)
    show "\<exists>k<length todos.
           ID (todos ! k) = i
           \<and> fst (UpdateHandler todos r) = todos[k := ?e]
           \<and> Task (fst (UpdateHandler todos r) ! k) = []"
      by (rule stored)
    show "CreateHandler todos r
      = (todos, \<lparr>status = 400, content_type = Some ''text/plain; charset=utf-8'',
                  resp_body = Text (''Task is empty'' @ [CHR 0x0A])\<rparr>)"
      by (rule cr)
  next
    assume "i \<in> ID ` set rows \<and> ?e \<notin> set rows"
    then have "i \<in> ID ` set rows" "data \<notin> set rows" using rec by auto
    from db(3) [OF this]
    show "UpdateHandler_db mysql_update rows r
            = (map (\<lambda>row. if ID row = i then ?e else row) rows,
               \<lparr>status = 200, content_type = Some ''application/json'', resp_body = JSON_Todo ?e\<rparr>)"
      by (subst (asm) (1 2) rec)
  next
    assume "distinct (map ID rows) \<and> ?e \<in> set rows"
    then have "distinct (map ID rows)" "data \<in> set rows" using rec by auto
    then show "UpdateHandler_db mysql_update rows r
            = (rows, \<lparr>status = 404, content_type = Some ''text/plain; charset=utf-8'',
                       resp_body = Text (''Todo not found'' @ [CHR 0x0A])\<rparr>)"
      by (rule db(2))
  qed
qed

theorem update_accepts_empty_task_witness:
  "Atoi (vars_id \<lparr>vars_id = ''2'', req_body = Object \<lparr>id_member = Some 2, task_member = Some [], done_member = Some False\<rparr>\<rparr>) = Some 2
   \<and> Decode (req_body \<lparr>vars_id = ''2'', req_body = Object \<lparr>id_member = Some 2, task_member = Some [], done_member = Some False\<rparr>\<rparr>)
       = Inr \<lparr>ID = 2, Task = [], Done = False\<rparr>
   \<and> 2 \<in> ID ` set todos_init
   \<and> UpdateHandler todos_init \<lparr>vars_id = ''2'', req_body = Object \<lparr>id_member = Some 2, task_member = Some [], done_member = Some False\<rparr>\<rparr>
       = ([\<lparr>ID = 1, Task = ''Learn Go basics'', Done = True\<rparr>, \<lparr>ID = 2, Task = [], Done = False\<rparr>],
          \<lparr>status = 200, content_type = Some ''application/json'',
           resp_body = JSON_Todo \<lparr>ID = 2, Task = [], Done = False\<rparr>\<rparr>)
   \<and> CreateHandler todos_init \<lparr>vars_id = ''2'', req_body = Object \<lparr>id_member = Some 2, task_member = Some [], done_member = Some False\<rparr>\<rparr>
       = (todos_init, \<lparr>status = 400, content_type = Some ''text/plain; charset=utf-8'',
                        resp_body = Text (''Task is empty'' @ [CHR 0x0A])\<rparr>)
   \<and> \<lparr>ID = 2, Task = [], Done = False\<rparr> \<notin> set todos_init
   \<and> UpdateHandler_db mysql_update todos_init
        \<lparr>vars_id = ''2'', req_body = Object \<lparr>id_member = Some 2, task_member = Some [], done_member = Some False\<rparr>\<rparr>
       = ([\<lparr>ID = 1, Task = ''Learn Go basics'', Done = True\<rparr>, \<lparr>ID = 2, Task = [], Done = False\<rparr>],
          \<lparr>status = 200, content_type = Some ''application/json'',
           resp_body = JSON_Todo \<lparr>ID = 2, Task = [], Done = False\<rparr>\<rparr>)
   \<and> distinct (map ID [\<lparr>ID = 1, Task = ''Learn Go basics'', Done = True\<rparr>, \<lparr>ID = 2, Task = [], Done = False\<rparr>])
   \<and> \<lparr>ID = 2, Task = [], Done = False\<rparr>
       \<in> set [\<lparr>ID = 1, Task = ''Learn Go basics'', Done = True\<rparr>, \<lparr>ID = 2, Task = [], Done = False\<rparr>]
   \<and> UpdateHandler_db mysql_update
        [\<lparr>ID = 1, Task = ''Learn Go basics'', Done = True\<rparr>, \<lparr>ID = 2, Task = [], Done = False\<rparr>]
        \<lparr>vars_id = ''2'', req_body = Object \<lparr>id_member = Some 2, task_member = Some [], done_member = Some False\<rparr>\<rparr>
       = ([\<lparr>ID = 1, Task = ''Learn Go basics'', Done = True\<rparr>, \<lparr>ID = 2, Task = [], Done = False\<rparr>],
          \<lparr>status = 404, content_type = Some ''text/plain; charset=utf-8'',
           resp_body = Text (''Todo not found'' @ [CHR 0x0A])\<rparr>)"
proof -
  have by_evaluation:
    "Atoi (vars_id \<lparr>vars_id = ''2'', req_body = Object \<lparr>id_member = Some 2, task_member = Some [], done_member = Some False\<rparr>\<rparr>) = Some 2
      \<and> Decode (req_body \<lparr>vars_id = ''2'', req_body = Object \<lparr>id_member = Some 2, task_member = Some [], done_member = Some False\<rparr>\<rparr>)
          = Inr \<lparr>ID = 2, Task = [], Done = False\<rparr>
      \<and> 2 \<in> ID ` set todos_init
      \<and> UpdateHandler todos_init \<lparr>vars_id = ''2'', req_body = Object \<lparr>id_member = Some 2, task_member = Some [], done_member = Some False\<rparr>\<rparr>
          = ([\<lparr>ID = 1, Task = ''Learn Go basics'', Done = True\<rparr>, \<lparr>ID = 2, Task = [], Done = False\<rparr>],
             \<lparr>status = 200, content_type = Some ''application/json'',
              resp_body = JSON_Todo \<lparr>ID = 2, Task = [], Done = False\<rparr>\<rparr>)
      \<and> CreateHandler todos_init \<lparr>vars_id = ''2'', req_body = Object \<lparr>id_member = Some 2, task_member = Some [], done_member = Some False\<rparr>\<rparr>
          = (todos_init, \<lparr>status = 400, content_type = Some ''text/plain; charset=utf-8'',
                           resp_body = Text (''Task is empty'' @ [CHR 0x0A])\<rparr>)
      \<and> \<lparr>ID = 2, Task = [], Done = False\<rparr> \<notin> set todos_init
      \<and> UpdateHandler_db mysql_update todos_init
           \<lparr>vars_id = ''2'', req_body = Object \<lparr>id_member = Some 2, task_member = Some [], done_member = Some False\<rparr>\<rparr>
          = ([\<lparr>ID = 1, Task = ''Learn Go basics'', Done = True\<rparr>, \<lparr>ID = 2, Task = [], Done = False\<rparr>],
             \<lparr>status = 200, content_type = Some ''application/json'',
              resp_body = JSON_Todo \<lparr>ID = 2, Task = [], Done = False\<rparr>\<rparr>)
      \<and> distinct (map ID [\<lparr>ID = 1, Task = ''Learn Go basics'', Done = True\<rparr>, \<lparr>ID = 2, Task = [], Done = False\<rparr>])
      \<and> \<lparr>ID = 2, Task = [], Done = False\<rparr>
          \<in> set [\<lparr>ID = 1, Task = ''Learn Go basics'', Done = True\<rparr>, \<lparr>ID = 2, Task = [], Done = False\<rparr>]
      \<and> UpdateHandler_db mysql_update
           [\<lparr>ID = 1, Task = ''Learn Go basics'', Done = True\<rparr>, \<lparr>ID = 2, Task = [], Done = False\<rparr>]
           \<lparr>vars_id = ''2'', req_body = Object \<lparr>id_member = Some 2, task_member = Some [], done_member = Some False\<rparr>\<rparr>
          = ([\<lparr>ID = 1, Task = ''Learn Go basics'', Done = True\<rparr>, \<lparr>ID = 2, Task = [], Done = False\<rparr>],
             \<lparr>status = 404, content_type = Some ''text/plain; charset=utf-8'',
              resp_body = Text (''Todo not found'' @ [CHR 0x0A])\<rparr>)"
    by (simp add: todos_init_def CreateHandler_def DeleteHandler_def UpdateHandler_def
        ReadHandler_def ListHandler_def UpdateHandler_db_def mysql_update_def Decode_def Atoi_def
        is_digit_def Let_def word_sless_alt word_sle_eq slices_Delete_def assigned_id_def
        creates_def json_response_def http_Error_def StatusOK_def StatusCreated_def
        StatusNoContent_def StatusBadRequest_def StatusNotFound_def StatusConflict_def)
  let ?r = "\<lparr>vars_id = ''2'', req_body = Object \<lparr>id_member = Some 2, task_member = Some [], done_member = Some False\<rparr>\<rparr>"
  let ?d = "\<lparr>ID = 2, Task = [], Done = False\<rparr>"
  let ?after = "[\<lparr>ID = 1, Task = ''Learn Go basics'', Done = True\<rparr>, ?d]"
  have a: "Atoi (vars_id ?r) = Some 2" by (simp add: Atoi_def is_digit_def)
  have d: "Decode (req_body ?r) = Inr ?d" by (simp add: Decode_def)
  have i: "ID ?d = 2" and e: "Task ?d = []" and dn: "Done ?d = False" by simp_all
  have m: "2 \<in> ID ` set todos_init" by (simp add: todos_init_def)
  have n: "?d \<notin> set todos_init" by (simp add: todos_init_def)
  have ds: "distinct (map ID ?after)" by simp
  have ms: "?d \<in> set ?after" by simp
  note w = update_accepts_empty_task [OF a d i e m, unfolded dn]
  from w [of "[]"] have rs: "snd (UpdateHandler todos_init ?r)
      = \<lparr>status = 200, content_type = Some ''application/json'', resp_body = JSON_Todo ?d\<rparr>"
    by (rule conjunct1)
  from w [of "[]"] obtain k where k: "k < length todos_init" and hit: "ID (todos_init ! k) = 2"
    and st: "fst (UpdateHandler todos_init ?r) = todos_init[k := ?d]"
    by blast
  from k hit have "k = 1" by (auto simp: todos_init_def less_Suc_eq)
  with st have st': "fst (UpdateHandler todos_init ?r) = ?after"
    by (simp add: todos_init_def)
  have up: "UpdateHandler todos_init ?r
      = (?after, \<lparr>status = 200, content_type = Some ''application/json'', resp_body = JSON_Todo ?d\<rparr>)"
    using st' rs by (simp add: prod_eq_iff)
  from w [of "[]"] have cr: "CreateHandler todos_init ?r
      = (todos_init, \<lparr>status = 400, content_type = Some ''text/plain; charset=utf-8'',
                        resp_body = Text (''Task is empty'' @ [CHR 0x0A])\<rparr>)"
    by blast
  note db_changed = w [of todos_init, THEN conjunct2, THEN conjunct2, THEN conjunct2,
      THEN conjunct1, rule_format]
  note db_same = w [of ?after, THEN conjunct2, THEN conjunct2, THEN conjunct2,
      THEN conjunct2, rule_format]
  from db_changed [OF conjI [OF m n]]
  have c1: "UpdateHandler_db mysql_update todos_init ?r
      = (?after, \<lparr>status = 200, content_type = Some ''application/json'', resp_body = JSON_Todo ?d\<rparr>)"
    by (simp add: todos_init_def)
  note c2 = db_same [OF conjI [OF ds ms]]
  show ?thesis using a d m up cr n c1 ds ms c2 by (intro conjI)
qed

text \<open>
  C10. At startup the collection is not empty: it holds two items, with the identifiers 1
  and 2 in this order. The first successful Create against it is therefore assigned the
  identifier 3, not 1.
\<close>

theorem startup_collection_holds_two_items:
  assumes "Decode (req_body r) = Inr data" and "Task data \<noteq> []"
  shows
    "todos_init \<noteq> [] \<and> length todos_init = 2 \<and> map ID todos_init = [1, 2]
     \<and> CreateHandler todos_init r =
         (todos_init @ [\<lparr>ID = 3, Task = Task data, Done = Done data\<rparr>],
          json_response StatusCreated (JSON_Todo \<lparr>ID = 3, Task = Task data, Done = Done data\<rparr>))
     \<and> ID (last (fst (CreateHandler todos_init r))) \<noteq> 1"
proof -
  have m: "max_scan 0 todos_init + 1 = 3" by (simp add: todos_init_def word_sless_alt)
  have cr: "CreateHandler todos_init r =
         (todos_init @ [\<lparr>ID = 3, Task = Task data, Done = Done data\<rparr>],
          json_response StatusCreated (JSON_Todo \<lparr>ID = 3, Task = Task data, Done = Done data\<rparr>))"
    using CreateHandler_ok [OF assms, of todos_init] m by simp
  then have "ID (last (fst (CreateHandler todos_init r))) \<noteq> 1" by simp
  with cr show ?thesis by (simp add: todos_init_def)
qed

theorem startup_collection_holds_two_items_witness:
  "Decode (req_body \<lparr>vars_id = [], req_body = Object \<lparr>id_member = None, task_member = Some ''Learn Go'', done_member = Some False\<rparr>\<rparr>)
       = Inr \<lparr>ID = 0, Task = ''Learn Go'', Done = False\<rparr>
   \<and> Task \<lparr>ID = 0, Task = ''Learn Go'', Done = False\<rparr> \<noteq> []
   \<and> CreateHandler todos_init \<lparr>vars_id = [], req_body = Object \<lparr>id_member = None, task_member = Some ''Learn Go'', done_member = Some False\<rparr>\<rparr>
       = ([\<lparr>ID = 1, Task = ''Learn Go basics'', Done = True\<rparr>,
           \<lparr>ID = 2, Task = ''Build a simple API'', Done = False\<rparr>,
           \<lparr>ID = 3, Task = ''Learn Go'', Done = False\<rparr>],
          json_response StatusCreated (JSON_Todo \<lparr>ID = 3, Task = ''Learn Go'', Done = False\<rparr>))"
proof -
  have by_evaluation:
    "Decode (req_body \<lparr>vars_id = [], req_body = Object \<lparr>id_member = None, task_member = Some ''Learn Go'', done_member = Some False\<rparr>\<rparr>)
          = Inr \<lparr>ID = 0, Task = ''Learn Go'', Done = False\<rparr>
      \<and> Task \<lparr>ID = 0, Task = ''Learn Go'', Done = False\<rparr> \<noteq> []
      \<and> CreateHandler todos_init \<lparr>vars_id = [], req_body = Object \<lparr>id_member = None, task_member = Some ''Learn Go'', done_member = Some False\<rparr>\<rparr>
          = ([\<lparr>ID = 1, Task = ''Learn Go basics'', Done = True\<rparr>,
              \<lparr>ID = 2, Task = ''Build a simple API'', Done = False\<rparr>,
              \<lparr>ID = 3, Task = ''Learn Go'', Done = False\<rparr>],
             json_response StatusCreated (JSON_Todo \<lparr>ID = 3, Task = ''Learn Go'', Done = False\<rparr>))"
    by (simp add: todos_init_def CreateHandler_def DeleteHandler_def UpdateHandler_def
        ReadHandler_def ListHandler_def UpdateHandler_db_def mysql_update_def Decode_def Atoi_def
        is_digit_def Let_def word_sless_alt word_sle_eq slices_Delete_def assigned_id_def
        creates_def json_response_def http_Error_def StatusOK_def StatusCreated_def
        StatusNoContent_def StatusBadRequest_def StatusNotFound_def StatusConflict_def)
  let ?r = "\<lparr>vars_id = [], req_body = Object \<lparr>id_member = None, task_member = Some ''Learn Go'', done_member = Some False\<rparr>\<rparr>"
  let ?d = "\<lparr>ID = 0, Task = ''Learn Go'', Done = False\<rparr>"
  have d: "Decode (req_body ?r) = Inr ?d" by (simp add: Decode_def)
  have t: "Task ?d \<noteq> []" by simp
  from startup_collection_holds_two_items [OF d t] d t
  show ?thesis by (simp add: todos_init_def)
qed

section \<open>Claims about runs of calls\<close>

lemma CreateHandler_state:
  "fst (CreateHandler todos r) = todos \<or>
   (\<exists>task dn. fst (CreateHandler todos r)
      = todos @ [\<lparr>ID = max_scan 0 todos + 1, Task = task, Done = dn\<rparr>])"
  by (auto simp: CreateHandler_def Let_def split: sum.splits)

lemma UpdateHandler_ids: "map ID (fst (UpdateHandler todos r)) = map ID todos"
proof (cases "Atoi (vars_id r)")
  case None
  then show ?thesis by (simp add: UpdateHandler_def)
next
  case (Some i)
  show ?thesis
  proof (cases "Decode (req_body r)")
    case (Inl err)
    with Some show ?thesis by (simp add: UpdateHandler_def)
  next
    case (Inr data)
    show ?thesis
    proof (cases "ID data = i")
      case False
      with Some Inr show ?thesis by (auto simp: UpdateHandler_def)
    next
      case True
      show ?thesis
      proof (cases "i \<in> ID ` set todos")
        case False
        with UpdateHandler_missing [OF Some Inr True] show ?thesis by simp
      next
        case mem: True
        from UpdateHandler_found [OF Some Inr True mem] obtain k where
          "k < length todos" "ID (todos ! k) = i"
          "UpdateHandler todos r = (todos[k := data], json_response StatusOK (JSON_Todo data))"
          by blast
        with True show ?thesis by (simp add: map_update list_update_same_conv)
      qed
    qed
  qed
qed

lemma DeleteHandler_state:
  "fst (DeleteHandler todos r) = todos \<or>
   (\<exists>k<length todos. fst (DeleteHandler todos r) = take k todos @ drop (Suc k) todos)"
proof (cases "Atoi (vars_id r)")
  case None
  then show ?thesis by (simp add: DeleteHandler_def)
next
  case (Some i)
  show ?thesis
  proof (cases "i \<in> ID ` set todos")
    case False
    with DeleteHandler_missing [OF Some] show ?thesis by simp
  next
    case True
    from DeleteHandler_found [OF Some True] show ?thesis by auto
  qed
qed

lemma ListHandler_state: "fst (ListHandler todos r) = todos"
  by (simp add: ListHandler_def)

lemma ReadHandler_state: "fst (ReadHandler todos r) = todos"
  by (simp add: ReadHandler_def split: option.splits)

lemma max_scan_nonneg: "0 \<le> sint (max_scan 0 todos)"
  by (simp add: max_scan_sint)

lemma max_scan_upper: "t \<in> set todos \<Longrightarrow> sint (ID t) \<le> sint (max_scan 0 todos)"
  by (simp add: max_scan_sint)

lemma max_scan_le:
  assumes "\<forall>n\<in>set (map ID todos). sint n \<le> m" and "0 \<le> m"
  shows "sint (max_scan 0 todos) \<le> m"
  using assms by (simp add: max_scan_sint)

lemma distinct_remove_nth:
  assumes "distinct xs"
  shows "distinct (take k xs @ drop (Suc k) xs)"
proof -
  have "distinct (take k xs @ drop k xs)" using assms by simp
  then have d: "distinct (take k xs)" "distinct (drop k xs)"
    "set (take k xs) \<inter> set (drop k xs) = {}"
    by (simp_all only: distinct_append)
  have sub: "set (drop (Suc k) xs) \<subseteq> set (drop k xs)"
    by (simp add: set_drop_subset_set_drop)
  have "distinct (drop (Suc k) xs)" using assms by simp
  with d sub show ?thesis by auto
qed

lemma set_remove_nth_subset: "set (take k xs @ drop (Suc k) xs) \<subseteq> set xs"
  using set_take_subset [of k xs] set_drop_subset [of "Suc k" xs] by auto

lemma serve_keeps_invariant:
  assumes dist: "distinct (map ID todos)"
    and rng: "\<forall>n\<in>set (map ID todos). 0 < sint n \<and> sint n \<le> m"
    and m0: "0 \<le> m"
    and room: "rt = POST_todos \<longrightarrow> m < 2 ^ 63 - 1"
  shows "distinct (map ID (fst (serve rt todos r))) \<and>
    (\<forall>n\<in>set (map ID (fst (serve rt todos r))).
       0 < sint n \<and> sint n \<le> m + (if rt = POST_todos then 1 else 0))"
proof (cases rt)
  case GET_todos
  with dist rng show ?thesis by (simp add: ListHandler_state)
next
  case GET_todos_id
  with dist rng show ?thesis by (simp add: ReadHandler_state)
next
  case POST_todos
  let ?M = "max_scan 0 todos"
  from rng m0 have le: "sint ?M \<le> m" by (intro max_scan_le) auto
  with room POST_todos have "sint ?M < 2 ^ 63 - 1" by simp
  then have new: "sint (?M + 1) = sint ?M + 1" by (rule sint_succ_no_wrap)
  have fresh: "?M + 1 \<notin> set (map ID todos)"
  proof
    assume "?M + 1 \<in> set (map ID todos)"
    then obtain t where "t \<in> set todos" "ID t = ?M + 1" by auto
    with max_scan_upper [of t todos] new show False by simp
  qed
  from CreateHandler_state [of todos r] show ?thesis
  proof
    assume "fst (CreateHandler todos r) = todos"
    with POST_todos dist rng show ?thesis by auto
  next
    assume "\<exists>task dn. fst (CreateHandler todos r)
      = todos @ [\<lparr>ID = ?M + 1, Task = task, Done = dn\<rparr>]"
    then obtain task dn where
      st: "fst (CreateHandler todos r) = todos @ [\<lparr>ID = ?M + 1, Task = task, Done = dn\<rparr>]"
      by blast
    have "0 < sint (?M + 1)" using new max_scan_nonneg [of todos] by simp
    moreover have "sint (?M + 1) \<le> m + 1" using new le by simp
    ultimately show ?thesis using POST_todos st dist rng fresh by auto
  qed
next
  case PUT_todos_id
  with dist rng show ?thesis by (simp add: UpdateHandler_ids)
next
  case DELETE_todos_id
  from DeleteHandler_state [of todos r] show ?thesis
  proof
    assume "fst (DeleteHandler todos r) = todos"
    with DELETE_todos_id dist rng show ?thesis by simp
  next
    assume "\<exists>k<length todos. fst (DeleteHandler todos r) = take k todos @ drop (Suc k) todos"
    then obtain k where st: "fst (DeleteHandler todos r) = take k todos @ drop (Suc k) todos"
      by blast
    have ids: "map ID (take k todos @ drop (Suc k) todos)
        = take k (map ID todos) @ drop (Suc k) (map ID todos)"
      by (simp add: take_map drop_map)
    have "distinct (map ID (take k todos @ drop (Suc k) todos))"
      unfolding ids using dist by (rule distinct_remove_nth)
    moreover have "set (map ID (take k todos @ drop (Suc k) todos)) \<subseteq> set (map ID todos)"
      unfolding ids by (rule set_remove_nth_subset)
    ultimately show ?thesis using DELETE_todos_id st rng by auto
  qed
qed

lemma creates_Cons:
  "creates ((rt, r) # calls) = (if rt = POST_todos then 1 else 0) + creates calls"
  by (simp add: creates_def)

lemma run_keeps_invariant:
  assumes "distinct (map ID todos)"
    and "\<forall>n\<in>set (map ID todos). 0 < sint n \<and> sint n \<le> m"
    and "0 \<le> m"
    and "m + int (creates calls) < 2 ^ 63"
  shows "distinct (map ID (run todos calls)) \<and>
    (\<forall>n\<in>set (map ID (run todos calls)). 0 < sint n \<and> sint n \<le> m + int (creates calls))"
  using assms
proof (induction calls arbitrary: todos m)
  case Nil
  then show ?case by (simp add: creates_def)
next
  case (Cons c calls)
  obtain rt r where c: "c = (rt, r)" by (cases c)
  let ?m = "m + (if rt = POST_todos then 1 else 0)"
  from Cons.prems(4) c have room: "rt = POST_todos \<longrightarrow> m < 2 ^ 63 - 1"
    by (auto simp: creates_Cons)
  from serve_keeps_invariant [OF Cons.prems(1-3) room, of r]
  have d: "distinct (map ID (fst (serve rt todos r)))"
    and b: "\<forall>n\<in>set (map ID (fst (serve rt todos r))). 0 < sint n \<and> sint n \<le> ?m"
    by blast+
  have m0: "0 \<le> ?m" using Cons.prems(3) by simp
  have sum: "?m + int (creates calls) = m + int (creates (c # calls))"
    by (simp add: c creates_Cons)
  with Cons.prems(4) have room': "?m + int (creates calls) < 2 ^ 63" by simp
  from Cons.IH [OF d b m0 room'] sum show ?case by (simp add: c)
qed

text \<open>
  C2. In every state that a run of fewer than \<open>2^63 - 2\<close> Create calls reaches from the
  startup collection (so that no identifier has wrapped around), the stored identifiers
  are pairwise distinct. No call changes the identifier of an item that stays: Create
  keeps every stored item in its place, Update leaves the identifier at every position as
  it was, and Delete either changes nothing or removes the item at one position and
  keeps all others in their order.
\<close>

theorem identifiers_unique_and_immutable:
  assumes "creates calls < 2 ^ 63 - 2"
  shows
    "distinct (map ID (run todos_init calls))
     \<and> take (length todos) (fst (CreateHandler todos r)) = todos
     \<and> map ID (fst (UpdateHandler todos r)) = map ID todos
     \<and> (fst (DeleteHandler todos r) = todos \<or>
         (\<exists>k<length todos. fst (DeleteHandler todos r) = take k todos @ drop (Suc k) todos))"
proof -
  have d0: "distinct (map ID todos_init)" by (simp add: todos_init_def)
  have b0: "\<forall>n\<in>set (map ID todos_init). 0 < sint n \<and> sint n \<le> 2"
    by (simp add: todos_init_def)
  from assms have "int (creates calls) < 2 ^ 63 - 2"
    by (simp add: of_nat_less_iff [symmetric] del: of_nat_less_iff)
  then have room: "2 + int (creates calls) < 2 ^ 63" by simp
  from run_keeps_invariant [OF d0 b0 _ room]
  have "distinct (map ID (run todos_init calls))" by simp
  moreover have "take (length todos) (fst (CreateHandler todos r)) = todos"
    using CreateHandler_state [of todos r] by auto
  ultimately show ?thesis
    using UpdateHandler_ids [of todos r] DeleteHandler_state [of todos r] by blast
qed

theorem identifiers_unique_and_immutable_witness:
  "creates [(POST_todos, \<lparr>vars_id = [], req_body = Object \<lparr>id_member = None, task_member = Some ''Learn Go'', done_member = Some False\<rparr>\<rparr>),
            (DELETE_todos_id, \<lparr>vars_id = ''1'', req_body = Undecodable ''EOF''\<rparr>),
            (PUT_todos_id, \<lparr>vars_id = ''3'', req_body = Object \<lparr>id_member = Some 3, task_member = Some ''Learn Go'', done_member = Some True\<rparr>\<rparr>)]
     < 2 ^ 63 - 2
   \<and> run todos_init
        [(POST_todos, \<lparr>vars_id = [], req_body = Object \<lparr>id_member = None, task_member = Some ''Learn Go'', done_member = Some False\<rparr>\<rparr>),
         (DELETE_todos_id, \<lparr>vars_id = ''1'', req_body = Undecodable ''EOF''\<rparr>),
         (PUT_todos_id, \<lparr>vars_id = ''3'', req_body = Object \<lparr>id_member = Some 3, task_member = Some ''Learn Go'', done_member = Some True\<rparr>\<rparr>)]
     = [\<lparr>ID = 2, Task = ''Build a simple API'', Done = False\<rparr>, \<lparr>ID = 3, Task = ''Learn Go'', Done = True\<rparr>]
   \<and> distinct (map ID (run todos_init
        [(POST_todos, \<lparr>vars_id = [], req_body = Object \<lparr>id_member = None, task_member = Some ''Learn Go'', done_member = Some False\<rparr>\<rparr>),
         (DELETE_todos_id, \<lparr>vars_id = ''1'', req_body = Undecodable ''EOF''\<rparr>),
         (PUT_todos_id, \<lparr>vars_id = ''3'', req_body = Object \<lparr>id_member = Some 3, task_member = Some ''Learn Go'', done_member = Some True\<rparr>\<rparr>)]))"
proof -
  have by_evaluation:
    "creates [(POST_todos, \<lparr>vars_id = [], req_body = Object \<lparr>id_member = None, task_member = Some ''Learn Go'', done_member = Some False\<rparr>\<rparr>),
               (DELETE_todos_id, \<lparr>vars_id = ''1'', req_body = Undecodable ''EOF''\<rparr>),
               (PUT_todos_id, \<lparr>vars_id = ''3'', req_body = Object \<lparr>id_member = Some 3, task_member = Some ''Learn Go'', done_member = Some True\<rparr>\<rparr>)]
        < 2 ^ 63 - 2
      \<and> run todos_init
           [(POST_todos, \<lparr>vars_id = [], req_body = Object \<lparr>id_member = None, task_member = Some ''Learn Go'', done_member = Some False\<rparr>\<rparr>),
            (DELETE_todos_id, \<lparr>vars_id = ''1'', req_body = Undecodable ''EOF''\<rparr>),
            (PUT_todos_id, \<lparr>vars_id = ''3'', req_body = Object \<lparr>id_member = Some 3, task_member = Some ''Learn Go'', done_member = Some True\<rparr>\<rparr>)]
        = [\<lparr>ID = 2, Task = ''Build a simple API'', Done = False\<rparr>, \<lparr>ID = 3, Task = ''Learn Go'', Done = True\<rparr>]
      \<and> distinct (map ID (run todos_init
           [(POST_todos, \<lparr>vars_id = [], req_body = Object \<lparr>id_member = None, task_member = Some ''Learn Go'', done_member = Some False\<rparr>\<rparr>),
            (DELETE_todos_id, \<lparr>vars_id = ''1'', req_body = Undecodable ''EOF''\<rparr>),
            (PUT_todos_id, \<lparr>vars_id = ''3'', req_body = Object \<lparr>id_member = Some 3, task_member = Some ''Learn Go'', done_member = Some True\<rparr>\<rparr>)]))"
    by (simp add: todos_init_def CreateHandler_def DeleteHandler_def UpdateHandler_def
        ReadHandler_def ListHandler_def UpdateHandler_db_def mysql_update_def Decode_def Atoi_def
        is_digit_def Let_def word_sless_alt word_sle_eq slices_Delete_def assigned_id_def
        creates_def json_response_def http_Error_def StatusOK_def StatusCreated_def
        StatusNoContent_def StatusBadRequest_def StatusNotFound_def StatusConflict_def)
  let ?calls = "[(POST_todos, \<lparr>vars_id = [], req_body = Object \<lparr>id_member = None, task_member = Some ''Learn Go'', done_member = Some False\<rparr>\<rparr>),
            (DELETE_todos_id, \<lparr>vars_id = ''1'', req_body = Undecodable ''EOF''\<rparr>),
            (PUT_todos_id, \<lparr>vars_id = ''3'', req_body = Object \<lparr>id_member = Some 3, task_member = Some ''Learn Go'', done_member = Some True\<rparr>\<rparr>)]"
  have c: "creates ?calls < 2 ^ 63 - 2" by (simp add: creates_def)
  have r: "run todos_init ?calls
     = [\<lparr>ID = 2, Task = ''Build a simple API'', Done = False\<rparr>, \<lparr>ID = 3, Task = ''Learn Go'', Done = True\<rparr>]"
    by (simp add: todos_init_def CreateHandler_def DeleteHandler_def UpdateHandler_def
        Decode_def Atoi_def is_digit_def Let_def word_sless_alt slices_Delete_def)
  from identifiers_unique_and_immutable [OF c]
  have "distinct (map ID (run todos_init ?calls))" by blast
  with c r show ?thesis by (intro conjI)
qed

text \<open>
  Every state that such a run reaches from the startup collection holds positive
  identifiers only, each of them exactly once: the states in which the maximum of the
  stored identifiers is what the scan of \<^verbatim>\<open>CreateHandler\<close> finds, and in which "the item
  with identifier \<open>i\<close>" is one item.
\<close>

lemma distinct_ids_one_occurrence:
  assumes "distinct (map ID ts)" and "t \<in> set ts"
  shows "length (filter (\<lambda>u. ID u = ID t) ts) = 1"
  using assms
proof (induction ts)
  case Nil
  then show ?case by simp
next
  case (Cons x xs)
  show ?case
  proof (cases "ID x = ID t")
    case True
    with Cons.prems(1) have "ID t \<notin> ID ` set xs" by simp
    then have "\<forall>u\<in>set xs. ID u \<noteq> ID t" by (metis imageI)
    then have "filter (\<lambda>u. ID u = ID t) xs = []" by (simp add: filter_empty_conv)
    with True show ?thesis by simp
  next
    case False
    with Cons.prems(2) have "t \<in> set xs" by auto
    with Cons.IH Cons.prems(1) False show ?thesis by simp
  qed
qed

lemma startup_runs_wellformed:
  assumes "creates calls < 2 ^ 63 - 2" and "t \<in> set (run todos_init calls)"
  shows "0 <s ID t \<and> length (filter (\<lambda>u. ID u = ID t) (run todos_init calls)) = 1"
proof -
  have d0: "distinct (map ID todos_init)" by (simp add: todos_init_def)
  have b0: "\<forall>n\<in>set (map ID todos_init). 0 < sint n \<and> sint n \<le> 2"
    by (simp add: todos_init_def)
  from assms(1) have "int (creates calls) < 2 ^ 63 - 2"
    by (simp add: of_nat_less_iff [symmetric] del: of_nat_less_iff)
  then have room: "2 + int (creates calls) < 2 ^ 63" by simp
  from run_keeps_invariant [OF d0 b0 _ room]
  have d: "distinct (map ID (run todos_init calls))"
    and b: "\<forall>n\<in>set (map ID (run todos_init calls)). 0 < sint n" by auto
  from b assms(2) have "0 < sint (ID t)" by auto
  then have "0 <s ID t" by (simp add: word_sless_alt)
  with distinct_ids_one_occurrence [OF d assms(2)] show ?thesis by simp
qed

lemma max_scan_same_ids:
  assumes "map ID ts = map ID us"
  shows "max_scan 0 ts = max_scan 0 us"
proof -
  have "ID ` set ts = ID ` set us" using assms by (metis set_map)
  then have "sint (max_scan 0 ts) = sint (max_scan 0 us)" by (simp add: max_scan_sint)
  then show ?thesis by (rule signed_word_eqI)
qed

lemma max_scan_snoc:
  assumes "sint (max_scan 0 ts) < 2 ^ 63 - 1"
  shows "max_scan 0 (ts @ [\<lparr>ID = max_scan 0 ts + 1, Task = task, Done = dn\<rparr>]) = max_scan 0 ts + 1"
proof -
  let ?M = "max_scan 0 ts"
  let ?ts = "ts @ [\<lparr>ID = ?M + 1, Task = task, Done = dn\<rparr>]"
  have new: "sint (?M + 1) = sint ?M + 1" using assms by (rule sint_succ_no_wrap)
  have "\<forall>n\<in>set (map ID ?ts). sint n \<le> sint ?M + 1"
    using max_scan_upper [of _ ts] new by fastforce
  moreover have "0 \<le> sint ?M + 1" using max_scan_nonneg [of ts] by simp
  ultimately have "sint (max_scan 0 ?ts) \<le> sint ?M + 1" by (rule max_scan_le)
  moreover have "sint (?M + 1) \<le> sint (max_scan 0 ?ts)"
    using max_scan_upper [of "\<lparr>ID = ?M + 1, Task = task, Done = dn\<rparr>" ?ts] by simp
  ultimately have "sint (max_scan 0 ?ts) = sint (?M + 1)" using new by simp
  then show ?thesis by (rule signed_word_eqI)
qed

lemma assigned_id_other_route: "rt \<noteq> POST_todos \<Longrightarrow> assigned_id rt resp = None"
  by (simp add: assigned_id_def)

lemma assigned_id_Create_None:
  "assigned_id POST_todos (snd (CreateHandler todos r)) = None \<Longrightarrow>
   fst (CreateHandler todos r) = todos"
  by (auto simp: assigned_id_def CreateHandler_def Let_def json_response_def http_Error_def
      StatusCreated_def StatusBadRequest_def split: sum.splits if_splits)

lemma assigned_id_Create_Some:
  "assigned_id POST_todos (snd (CreateHandler todos r)) = Some n \<Longrightarrow>
   n = max_scan 0 todos + 1 \<and>
   (\<exists>task dn. fst (CreateHandler todos r) = todos @ [\<lparr>ID = n, Task = task, Done = dn\<rparr>])"
  by (auto simp: assigned_id_def CreateHandler_def Let_def json_response_def http_Error_def
      StatusCreated_def StatusBadRequest_def split: sum.splits if_splits)

lemma max_scan_remove_nth:
  "sint (max_scan 0 (take k ts @ drop (Suc k) ts)) \<le> sint (max_scan 0 ts)"
proof (rule max_scan_le)
  show "\<forall>n\<in>set (map ID (take k ts @ drop (Suc k) ts)). sint n \<le> sint (max_scan 0 ts)"
  proof
    fix n assume "n \<in> set (map ID (take k ts @ drop (Suc k) ts))"
    then obtain t where t: "t \<in> set (take k ts @ drop (Suc k) ts)" "ID t = n" by auto
    with set_remove_nth_subset [of k ts] have "t \<in> set ts" by blast
    with t max_scan_upper [of t ts] show "sint n \<le> sint (max_scan 0 ts)" by simp
  qed
  show "0 \<le> sint (max_scan 0 ts)" by (rule max_scan_nonneg)
qed

lemma serve_max:
  assumes "rt = POST_todos \<longrightarrow> sint (max_scan 0 todos) < 2 ^ 63 - 1"
  shows "sint (max_scan 0 (fst (serve rt todos r)))
       \<le> sint (max_scan 0 todos) + (if rt = POST_todos then 1 else 0)"
proof (cases rt)
  case GET_todos
  then show ?thesis by (simp add: ListHandler_state)
next
  case GET_todos_id
  then show ?thesis by (simp add: ReadHandler_state)
next
  case POST_todos
  with assms have room: "sint (max_scan 0 todos) < 2 ^ 63 - 1" by simp
  from CreateHandler_state [of todos r] show ?thesis
  proof
    assume "fst (CreateHandler todos r) = todos"
    with POST_todos show ?thesis by simp
  next
    assume "\<exists>task dn. fst (CreateHandler todos r)
      = todos @ [\<lparr>ID = max_scan 0 todos + 1, Task = task, Done = dn\<rparr>]"
    then obtain task dn where "fst (CreateHandler todos r)
      = todos @ [\<lparr>ID = max_scan 0 todos + 1, Task = task, Done = dn\<rparr>]" by blast
    with POST_todos max_scan_snoc [OF room] sint_succ_no_wrap [OF room]
    show ?thesis by simp
  qed
next
  case PUT_todos_id
  then show ?thesis using max_scan_same_ids [OF UpdateHandler_ids [of todos r]] by simp
next
  case DELETE_todos_id
  from DeleteHandler_state [of todos r] show ?thesis
  proof
    assume "fst (DeleteHandler todos r) = todos"
    with DELETE_todos_id show ?thesis by simp
  next
    assume "\<exists>k<length todos. fst (DeleteHandler todos r) = take k todos @ drop (Suc k) todos"
    then obtain k where "fst (DeleteHandler todos r) = take k todos @ drop (Suc k) todos"
      by blast
    with DELETE_todos_id max_scan_remove_nth [of k todos] show ?thesis by simp
  qed
qed

lemma run_max:
  assumes "sint (max_scan 0 todos) + int (creates calls) < 2 ^ 63"
  shows "sint (max_scan 0 (run todos calls)) \<le> sint (max_scan 0 todos) + int (creates calls)"
  using assms
proof (induction calls arbitrary: todos)
  case Nil
  then show ?case by simp
next
  case (Cons c calls)
  obtain rt r where c: "c = (rt, r)" by (cases c)
  let ?t = "fst (serve rt todos r)"
  from Cons.prems c have room: "rt = POST_todos \<longrightarrow> sint (max_scan 0 todos) < 2 ^ 63 - 1"
    by (auto simp: creates_Cons)
  note step = serve_max [OF room, of r]
  with Cons.prems c have "sint (max_scan 0 ?t) + int (creates calls) < 2 ^ 63"
    by (auto simp: creates_Cons split: if_splits)
  from Cons.IH [OF this] step show ?case
    by (auto simp: c creates_Cons split: if_splits)
qed

lemma creates_append: "creates (xs @ ys) = creates xs + creates ys"
  by (simp add: creates_def)

lemma create_in_run_fresh:
  assumes room: "sint (max_scan 0 todos) + int (creates (pre @ (POST_todos, r) # post)) < 2 ^ 63"
    and some: "assigned_id POST_todos (snd (CreateHandler (run todos pre) r)) = Some n"
  shows "n \<notin> ID ` set (run todos pre)"
proof
  assume "n \<in> ID ` set (run todos pre)"
  then obtain t where t: "t \<in> set (run todos pre)" "ID t = n" by auto
  let ?s = "run todos pre"
  from room have r1: "sint (max_scan 0 todos) + int (creates pre) < 2 ^ 63 - 1"
    by (simp add: creates_append creates_Cons)
  then have "sint (max_scan 0 todos) + int (creates pre) < 2 ^ 63" by simp
  from run_max [OF this] r1 have "sint (max_scan 0 ?s) < 2 ^ 63 - 1" by simp
  then have new: "sint (max_scan 0 ?s + 1) = sint (max_scan 0 ?s) + 1"
    by (rule sint_succ_no_wrap)
  from assigned_id_Create_Some [OF some] have "n = max_scan 0 ?s + 1" by blast
  with t max_scan_upper [of t ?s] new show False by simp
qed

lemma created_ids_max_kept:
  assumes "deletes_keep_max todos calls"
    and "sint (max_scan 0 todos) + int (creates calls) < 2 ^ 63"
  shows "distinct (created_ids todos calls) \<and>
    (\<forall>n\<in>set (created_ids todos calls). sint (max_scan 0 todos) < sint n)"
  using assms
proof (induction calls arbitrary: todos)
  case Nil
  then show ?case by simp
next
  case (Cons c calls)
  obtain rt r where c: "c = (rt, r)" by (cases c)
  let ?t = "fst (serve rt todos r)"
  let ?M = "max_scan 0 todos"
  from Cons.prems(1) c
  have kd: "rt = DELETE_todos_id \<longrightarrow> max_scan 0 (fst (DeleteHandler todos r)) = ?M"
    and keep: "deletes_keep_max ?t calls" by auto
  show ?case
  proof (cases "assigned_id rt (snd (serve rt todos r))")
    case None
    have same: "max_scan 0 ?t = ?M"
    proof (cases rt)
      case GET_todos
      then show ?thesis by (simp add: ListHandler_state)
    next
      case GET_todos_id
      then show ?thesis by (simp add: ReadHandler_state)
    next
      case POST_todos
      with None assigned_id_Create_None [of todos r] show ?thesis by simp
    next
      case PUT_todos_id
      then show ?thesis using max_scan_same_ids [OF UpdateHandler_ids [of todos r]] by simp
    next
      case DELETE_todos_id
      with kd show ?thesis by simp
    qed
    from Cons.prems(2) c have "sint ?M + int (creates calls) < 2 ^ 63"
      by (auto simp: creates_Cons split: if_splits)
    with same have "sint (max_scan 0 ?t) + int (creates calls) < 2 ^ 63" by simp
    from Cons.IH [OF keep this] same None show ?thesis by (simp add: c)
  next
    case (Some n)
    then have post: "rt = POST_todos" using assigned_id_other_route [of rt] by force
    with Cons.prems(2) c have room: "sint ?M + 1 + int (creates calls) < 2 ^ 63"
      by (simp add: creates_Cons)
    then have room1: "sint ?M < 2 ^ 63 - 1" by simp
    from Some post assigned_id_Create_Some [of todos r n] obtain task dn where
      n: "n = ?M + 1" and st: "?t = todos @ [\<lparr>ID = ?M + 1, Task = task, Done = dn\<rparr>]"
      by auto
    have sn: "sint n = sint ?M + 1" using n sint_succ_no_wrap [OF room1] by simp
    have mx: "max_scan 0 ?t = n" using st n max_scan_snoc [OF room1] by simp
    with room sn have "sint (max_scan 0 ?t) + int (creates calls) < 2 ^ 63" by simp
    from Cons.IH [OF keep this] mx sn
    have d: "distinct (created_ids ?t calls)"
      and b: "\<forall>k\<in>set (created_ids ?t calls). sint ?M + 1 < sint k" by auto
    from b sn have "n \<notin> set (created_ids ?t calls)" by auto
    with d b sn Some show ?thesis by (auto simp: c)
  qed
qed

lemma no_delete_keeps_max:
  "\<forall>c\<in>set calls. fst c \<noteq> DELETE_todos_id \<Longrightarrow> deletes_keep_max todos calls"
  by (induction calls arbitrary: todos) auto

lemma create_delete_create:
  assumes d1: "Decode (req_body r1) = Inr d1" and t1: "Task d1 \<noteq> []"
    and d2: "Decode (req_body r2) = Inr d2" and t2: "Task d2 \<noteq> []"
    and a: "Atoi (vars_id rd) = Some (max_scan 0 todos + 1)"
    and room: "sint (max_scan 0 todos) < 2 ^ 63 - 1"
  shows "created_ids todos [(POST_todos, r1), (DELETE_todos_id, rd), (POST_todos, r2)]
           = [max_scan 0 todos + 1, max_scan 0 todos + 1]"
    and "run todos [(POST_todos, r1), (DELETE_todos_id, rd)] = todos"
    and "map status (responses todos [(POST_todos, r1), (DELETE_todos_id, rd), (POST_todos, r2)])
           = [201, 204, 201]"
proof -
  let ?n = "max_scan 0 todos + 1"
  let ?new = "\<lparr>ID = ?n, Task = Task d1, Done = Done d1\<rparr>"
  let ?s = "todos @ [?new]"
  have c1: "CreateHandler todos r1 = (?s, json_response StatusCreated (JSON_Todo ?new))"
    using CreateHandler_ok [OF d1 t1] .
  have c2: "CreateHandler todos r2
      = (todos @ [\<lparr>ID = ?n, Task = Task d2, Done = Done d2\<rparr>],
         json_response StatusCreated (JSON_Todo \<lparr>ID = ?n, Task = Task d2, Done = Done d2\<rparr>))"
    using CreateHandler_ok [OF d2 t2] .
  have sn: "sint ?n = sint (max_scan 0 todos) + 1" using sint_succ_no_wrap [OF room] .
  have fresh: "\<forall>t\<in>set todos. ID t \<noteq> ?n"
  proof
    fix t assume "t \<in> set todos"
    from max_scan_upper [OF this] sn show "ID t \<noteq> ?n" by auto
  qed
  then have f0: "filter (\<lambda>t. ID t = ?n) todos = []" by (simp add: filter_empty_conv)
  from fresh have f1: "filter (\<lambda>t. ID t \<noteq> ?n) todos = todos" by (simp add: filter_id_conv)
  have one: "length (filter (\<lambda>t. ID t = ?n) ?s) = 1" using f0 by simp
  from DeleteHandler_twice [OF a one, unfolded Let_def]
  have "fst (DeleteHandler ?s rd) = filter (\<lambda>t. ID t \<noteq> ?n) ?s"
    and ds: "snd (DeleteHandler ?s rd)
      = \<lparr>status = StatusNoContent, content_type = None, resp_body = Empty\<rparr>"
    by blast+
  with f1 have del: "fst (DeleteHandler ?s rd) = todos" by simp
  show "created_ids todos [(POST_todos, r1), (DELETE_todos_id, rd), (POST_todos, r2)] = [?n, ?n]"
    using c1 c2 del
    by (simp add: assigned_id_def json_response_def StatusCreated_def)
  show "run todos [(POST_todos, r1), (DELETE_todos_id, rd)] = todos"
    using c1 del by simp
  show "map status (responses todos [(POST_todos, r1), (DELETE_todos_id, rd), (POST_todos, r2)])
           = [201, 204, 201]"
    using c1 c2 del ds by (simp add: json_response_def StatusCreated_def StatusNoContent_def)
qed

text \<open>
  C3, as amended. Identifiers can be assigned twice: the scan only sees the items that
  are stored, so a Create that follows the Delete of the item holding the largest
  identifier can be assigned an identifier again (the counterexample at the end). What
  holds, for a run from any collection whose largest identifier (or 0) plus the number of
  Create calls stays below \<open>2^63\<close>:
  \<^item> a successful Create is never assigned an identifier that is stored at the time of
    the call;
  \<^item> as long as no Delete of the run lowers what the scan finds, no two successful Create
    calls are assigned the same identifier, nor one that was stored at the start;
  \<^item> from every state, a Create, the Delete of the item it created and another Create are
    answered 201, 204 and 201, and both Creates are assigned the same identifier.
\<close>

theorem created_identifiers_distinct_while_max_kept:
  assumes "Max (insert 0 (sint ` ID ` set todos)) + int (creates calls) < 2 ^ 63"
  shows
    "(\<forall>pre r post n.
        calls = pre @ (POST_todos, r) # post
        \<and> assigned_id POST_todos (snd (CreateHandler (run todos pre) r)) = Some n
        \<longrightarrow> n \<notin> ID ` set (run todos pre))
     \<and> (deletes_keep_max todos calls \<longrightarrow>
          distinct (created_ids todos calls)
          \<and> (\<forall>n\<in>set (created_ids todos calls). n \<notin> ID ` set todos))
     \<and> (\<forall>r1 d1 rd r2 d2.
          Decode (req_body r1) = Inr d1 \<and> Task d1 \<noteq> []
          \<and> Decode (req_body r2) = Inr d2 \<and> Task d2 \<noteq> []
          \<and> Atoi (vars_id rd) = Some (word_of_int (Max (insert 0 (sint ` ID ` set todos)) + 1))
          \<and> Max (insert 0 (sint ` ID ` set todos)) < 2 ^ 63 - 1
          \<longrightarrow> created_ids todos [(POST_todos, r1), (DELETE_todos_id, rd), (POST_todos, r2)]
                = [word_of_int (Max (insert 0 (sint ` ID ` set todos)) + 1),
                   word_of_int (Max (insert 0 (sint ` ID ` set todos)) + 1)]
              \<and> map status
                   (responses todos [(POST_todos, r1), (DELETE_todos_id, rd), (POST_todos, r2)])
                = [201, 204, 201])"
proof -
  have mx: "sint (max_scan 0 todos) = Max (insert 0 (sint ` ID ` set todos))"
    using max_scan_sint [of 0 todos] by simp
  have nw: "max_scan 0 todos + 1 = word_of_int (Max (insert 0 (sint ` ID ` set todos)) + 1)"
    by (simp add: max_scan_eq_word)
  from mx assms have room: "sint (max_scan 0 todos) + int (creates calls) < 2 ^ 63" by simp
  have fresh: "n \<notin> ID ` set (run todos pre)"
    if "calls = pre @ (POST_todos, r) # post"
      and "assigned_id POST_todos (snd (CreateHandler (run todos pre) r)) = Some n"
    for pre r post n
    using create_in_run_fresh [of todos pre r post n] room that by simp
  have kept: "distinct (created_ids todos calls)
      \<and> (\<forall>n\<in>set (created_ids todos calls). n \<notin> ID ` set todos)"
    if k: "deletes_keep_max todos calls"
  proof -
    from created_ids_max_kept [OF k room]
    have d: "distinct (created_ids todos calls)"
      and b: "\<forall>n\<in>set (created_ids todos calls). sint (max_scan 0 todos) < sint n"
      by blast+
    have "n \<notin> ID ` set todos" if "n \<in> set (created_ids todos calls)" for n
    proof
      assume "n \<in> ID ` set todos"
      then obtain t where "t \<in> set todos" "ID t = n" by auto
      with max_scan_upper [of t todos] b that show False by force
    qed
    with d show ?thesis by blast
  qed
  have reuse: "created_ids todos [(POST_todos, r1), (DELETE_todos_id, rd), (POST_todos, r2)]
                = [word_of_int (Max (insert 0 (sint ` ID ` set todos)) + 1),
                   word_of_int (Max (insert 0 (sint ` ID ` set todos)) + 1)]
              \<and> map status
                   (responses todos [(POST_todos, r1), (DELETE_todos_id, rd), (POST_todos, r2)])
                = [201, 204, 201]"
    if "Decode (req_body r1) = Inr d1" "Task d1 \<noteq> []"
      "Decode (req_body r2) = Inr d2" "Task d2 \<noteq> []"
      "Atoi (vars_id rd) = Some (word_of_int (Max (insert 0 (sint ` ID ` set todos)) + 1))"
      "Max (insert 0 (sint ` ID ` set todos)) < 2 ^ 63 - 1"
    for r1 d1 rd r2 d2
  proof -
    have a: "Atoi (vars_id rd) = Some (max_scan 0 todos + 1)"
      unfolding nw by (rule that(5))
    have r: "sint (max_scan 0 todos) < 2 ^ 63 - 1"
      unfolding mx by (rule that(6))
    note cdc = create_delete_create(1,3) [OF that(1-4) a r, unfolded nw]
    show ?thesis using cdc by (intro conjI)
  qed
  show ?thesis
  proof (intro conjI allI impI)
    fix pre r post n
    assume "calls = pre @ (POST_todos, r) # post
        \<and> assigned_id POST_todos (snd (CreateHandler (run todos pre) r)) = Some n"
    then show "n \<notin> ID ` set (run todos pre)" using fresh by blast
  next
    assume "deletes_keep_max todos calls"
    then show "distinct (created_ids todos calls)" using kept by blast
  next
    assume "deletes_keep_max todos calls"
    then show "\<forall>n\<in>set (created_ids todos calls). n \<notin> ID ` set todos" using kept by blast
  next
    fix r1 rd r2 :: request and d1 d2 :: Todo
    assume h: "Decode (req_body r1) = Inr d1 \<and> Task d1 \<noteq> []
          \<and> Decode (req_body r2) = Inr d2 \<and> Task d2 \<noteq> []
          \<and> Atoi (vars_id rd) = Some (word_of_int (Max (insert 0 (sint ` ID ` set todos)) + 1))
          \<and> Max (insert 0 (sint ` ID ` set todos)) < 2 ^ 63 - 1"
    then have *: "Decode (req_body r1) = Inr d1" "Task d1 \<noteq> []"
      "Decode (req_body r2) = Inr d2" "Task d2 \<noteq> []"
      "Atoi (vars_id rd) = Some (word_of_int (Max (insert 0 (sint ` ID ` set todos)) + 1))"
      "Max (insert 0 (sint ` ID ` set todos)) < 2 ^ 63 - 1"
      by blast+
    from reuse [OF *]
    show "created_ids todos [(POST_todos, r1), (DELETE_todos_id, rd), (POST_todos, r2)]
                = [word_of_int (Max (insert 0 (sint ` ID ` set todos)) + 1),
                   word_of_int (Max (insert 0 (sint ` ID ` set todos)) + 1)]"
      by (rule conjunct1)
    from reuse [OF *]
    show "map status
                   (responses todos [(POST_todos, r1), (DELETE_todos_id, rd), (POST_todos, r2)])
                = [201, 204, 201]"
      by (rule conjunct2)
  qed
qed

theorem created_identifiers_distinct_while_max_kept_witness:
  "Max (insert 0 (sint ` ID ` set todos_init))
     + int (creates
        [(POST_todos, \<lparr>vars_id = [], req_body = Object \<lparr>id_member = None, task_member = Some ''Learn Go'', done_member = Some False\<rparr>\<rparr>),
         (DELETE_todos_id, \<lparr>vars_id = ''1'', req_body = Undecodable ''EOF''\<rparr>),
         (POST_todos, \<lparr>vars_id = [], req_body = Object \<lparr>id_member = None, task_member = Some ''Write tests'', done_member = Some False\<rparr>\<rparr>),
         (DELETE_todos_id, \<lparr>vars_id = ''3'', req_body = Undecodable ''EOF''\<rparr>),
         (POST_todos, \<lparr>vars_id = [], req_body = Object \<lparr>id_member = None, task_member = Some ''Ship it'', done_member = Some False\<rparr>\<rparr>)])
     < 2 ^ 63
   \<and> deletes_keep_max todos_init
        [(POST_todos, \<lparr>vars_id = [], req_body = Object \<lparr>id_member = None, task_member = Some ''Learn Go'', done_member = Some False\<rparr>\<rparr>),
         (DELETE_todos_id, \<lparr>vars_id = ''1'', req_body = Undecodable ''EOF''\<rparr>),
         (POST_todos, \<lparr>vars_id = [], req_body = Object \<lparr>id_member = None, task_member = Some ''Write tests'', done_member = Some False\<rparr>\<rparr>),
         (DELETE_todos_id, \<lparr>vars_id = ''3'', req_body = Undecodable ''EOF''\<rparr>),
         (POST_todos, \<lparr>vars_id = [], req_body = Object \<lparr>id_member = None, task_member = Some ''Ship it'', done_member = Some False\<rparr>\<rparr>)]
   \<and> created_ids todos_init
        [(POST_todos, \<lparr>vars_id = [], req_body = Object \<lparr>id_member = None, task_member = Some ''Learn Go'', done_member = Some False\<rparr>\<rparr>),
         (DELETE_todos_id, \<lparr>vars_id = ''1'', req_body = Undecodable ''EOF''\<rparr>),
         (POST_todos, \<lparr>vars_id = [], req_body = Object \<lparr>id_member = None, task_member = Some ''Write tests'', done_member = Some False\<rparr>\<rparr>),
         (DELETE_todos_id, \<lparr>vars_id = ''3'', req_body = Undecodable ''EOF''\<rparr>),
         (POST_todos, \<lparr>vars_id = [], req_body = Object \<lparr>id_member = None, task_member = Some ''Ship it'', done_member = Some False\<rparr>\<rparr>)]
       = [3, 4, 5]
   \<and> distinct (created_ids todos_init
        [(POST_todos, \<lparr>vars_id = [], req_body = Object \<lparr>id_member = None, task_member = Some ''Learn Go'', done_member = Some False\<rparr>\<rparr>),
         (DELETE_todos_id, \<lparr>vars_id = ''1'', req_body = Undecodable ''EOF''\<rparr>),
         (POST_todos, \<lparr>vars_id = [], req_body = Object \<lparr>id_member = None, task_member = Some ''Write tests'', done_member = Some False\<rparr>\<rparr>),
         (DELETE_todos_id, \<lparr>vars_id = ''3'', req_body = Undecodable ''EOF''\<rparr>),
         (POST_todos, \<lparr>vars_id = [], req_body = Object \<lparr>id_member = None, task_member = Some ''Ship it'', done_member = Some False\<rparr>\<rparr>)])
   \<and> run todos_init
        [(POST_todos, \<lparr>vars_id = [], req_body = Object \<lparr>id_member = None, task_member = Some ''Learn Go'', done_member = Some False\<rparr>\<rparr>),
         (DELETE_todos_id, \<lparr>vars_id = ''1'', req_body = Undecodable ''EOF''\<rparr>),
         (POST_todos, \<lparr>vars_id = [], req_body = Object \<lparr>id_member = None, task_member = Some ''Write tests'', done_member = Some False\<rparr>\<rparr>),
         (DELETE_todos_id, \<lparr>vars_id = ''3'', req_body = Undecodable ''EOF''\<rparr>)]
       = [\<lparr>ID = 2, Task = ''Build a simple API'', Done = False\<rparr>, \<lparr>ID = 4, Task = ''Write tests'', Done = False\<rparr>]
   \<and> assigned_id POST_todos (snd (CreateHandler
        [\<lparr>ID = 2, Task = ''Build a simple API'', Done = False\<rparr>, \<lparr>ID = 4, Task = ''Write tests'', Done = False\<rparr>]
        \<lparr>vars_id = [], req_body = Object \<lparr>id_member = None, task_member = Some ''Ship it'', done_member = Some False\<rparr>\<rparr>))
       = Some 5
   \<and> 5 \<notin> ID ` set [\<lparr>ID = 2, Task = ''Build a simple API'', Done = False\<rparr>, \<lparr>ID = 4, Task = ''Write tests'', Done = False\<rparr>]
   \<and> Atoi (vars_id \<lparr>vars_id = ''3'', req_body = Undecodable ''EOF''\<rparr>) = Some 3
   \<and> created_ids todos_init
        [(POST_todos, \<lparr>vars_id = [], req_body = Object \<lparr>id_member = None, task_member = Some ''Learn Go'', done_member = Some False\<rparr>\<rparr>),
         (DELETE_todos_id, \<lparr>vars_id = ''3'', req_body = Undecodable ''EOF''\<rparr>),
         (POST_todos, \<lparr>vars_id = [], req_body = Object \<lparr>id_member = None, task_member = Some ''Write tests'', done_member = Some False\<rparr>\<rparr>)]
       = [3, 3]"
proof -
  have by_evaluation:
    "Max (insert 0 (sint ` ID ` set todos_init))
        + int (creates
           [(POST_todos, \<lparr>vars_id = [], req_body = Object \<lparr>id_member = None, task_member = Some ''Learn Go'', done_member = Some False\<rparr>\<rparr>),
            (DELETE_todos_id, \<lparr>vars_id = ''1'', req_body = Undecodable ''EOF''\<rparr>),
            (POST_todos, \<lparr>vars_id = [], req_body = Object \<lparr>id_member = None, task_member = Some ''Write tests'', done_member = Some False\<rparr>\<rparr>),
            (DELETE_todos_id, \<lparr>vars_id = ''3'', req_body = Undecodable ''EOF''\<rparr>),
            (POST_todos, \<lparr>vars_id = [], req_body = Object \<lparr>id_member = None, task_member = Some ''Ship it'', done_member = Some False\<rparr>\<rparr>)])
        < 2 ^ 63
      \<and> deletes_keep_max todos_init
           [(POST_todos, \<lparr>vars_id = [], req_body = Object \<lparr>id_member = None, task_member = Some ''Learn Go'', done_member = Some False\<rparr>\<rparr>),
            (DELETE_todos_id, \<lparr>vars_id = ''1'', req_body = Undecodable ''EOF''\<rparr>),
            (POST_todos, \<lparr>vars_id = [], req_body = Object \<lparr>id_member = None, task_member = Some ''Write tests'', done_member = Some False\<rparr>\<rparr>),
            (DELETE_todos_id, \<lparr>vars_id = ''3'', req_body = Undecodable ''EOF''\<rparr>),
            (POST_todos, \<lparr>vars_id = [], req_body = Object \<lparr>id_member = None, task_member = Some ''Ship it'', done_member = Some False\<rparr>\<rparr>)]
      \<and> created_ids todos_init
           [(POST_todos, \<lparr>vars_id = [], req_body = Object \<lparr>id_member = None, task_member = Some ''Learn Go'', done_member = Some False\<rparr>\<rparr>),
            (DELETE_todos_id, \<lparr>vars_id = ''1'', req_body = Undecodable ''EOF''\<rparr>),
            (POST_todos, \<lparr>vars_id = [], req_body = Object \<lparr>id_member = None, task_member = Some ''Write tests'', done_member = Some False\<rparr>\<rparr>),
            (DELETE_todos_id, \<lparr>vars_id = ''3'', req_body = Undecodable ''EOF''\<rparr>),
            (POST_todos, \<lparr>vars_id = [], req_body = Object \<lparr>id_member = None, task_member = Some ''Ship it'', done_member = Some False\<rparr>\<rparr>)]
          = [3, 4, 5]
      \<and> distinct (created_ids todos_init
           [(POST_todos, \<lparr>vars_id = [], req_body = Object \<lparr>id_member = None, task_member = Some ''Learn Go'', done_member = Some False\<rparr>\<rparr>),
            (DELETE_todos_id, \<lparr>vars_id = ''1'', req_body = Undecodable ''EOF''\<rparr>),
            (POST_todos, \<lparr>vars_id = [], req_body = Object \<lparr>id_member = None, task_member = Some ''Write tests'', done_member = Some False\<rparr>\<rparr>),
            (DELETE_todos_id, \<lparr>vars_id = ''3'', req_body = Undecodable ''EOF''\<rparr>),
            (POST_todos, \<lparr>vars_id = [], req_body = Object \<lparr>id_member = None, task_member = Some ''Ship it'', done_member = Some False\<rparr>\<rparr>)])
      \<and> run todos_init
           [(POST_todos, \<lparr>vars_id = [], req_body = Object \<lparr>id_member = None, task_member = Some ''Learn Go'', done_member = Some False\<rparr>\<rparr>),
            (DELETE_todos_id, \<lparr>vars_id = ''1'', req_body = Undecodable ''EOF''\<rparr>),
            (POST_todos, \<lparr>vars_id = [], req_body = Object \<lparr>id_member = None, task_member = Some ''Write tests'', done_member = Some False\<rparr>\<rparr>),
            (DELETE_todos_id, \<lparr>vars_id = ''3'', req_body = Undecodable ''EOF''\<rparr>)]
          = [\<lparr>ID = 2, Task = ''Build a simple API'', Done = False\<rparr>, \<lparr>ID = 4, Task = ''Write tests'', Done = False\<rparr>]
      \<and> assigned_id POST_todos (snd (CreateHandler
           [\<lparr>ID = 2, Task = ''Build a simple API'', Done = False\<rparr>, \<lparr>ID = 4, Task = ''Write tests'', Done = False\<rparr>]
           \<lparr>vars_id = [], req_body = Object \<lparr>id_member = None, task_member = Some ''Ship it'', done_member = Some False\<rparr>\<rparr>))
          = Some 5
      \<and> 5 \<notin> ID ` set [\<lparr>ID = 2, Task = ''Build a simple API'', Done = False\<rparr>, \<lparr>ID = 4, Task = ''Write tests'', Done = False\<rparr>]
      \<and> Atoi (vars_id \<lparr>vars_id = ''3'', req_body = Undecodable ''EOF''\<rparr>) = Some 3
      \<and> created_ids todos_init
           [(POST_todos, \<lparr>vars_id = [], req_body = Object \<lparr>id_member = None, task_member = Some ''Learn Go'', done_member = Some False\<rparr>\<rparr>),
            (DELETE_todos_id, \<lparr>vars_id = ''3'', req_body = Undecodable ''EOF''\<rparr>),
            (POST_todos, \<lparr>vars_id = [], req_body = Object \<lparr>id_member = None, task_member = Some ''Write tests'', done_member = Some False\<rparr>\<rparr>)]
          = [3, 3]"
    by (simp add: todos_init_def CreateHandler_def DeleteHandler_def UpdateHandler_def
        ReadHandler_def ListHandler_def UpdateHandler_db_def mysql_update_def Decode_def Atoi_def
        is_digit_def Let_def word_sless_alt word_sle_eq slices_Delete_def assigned_id_def
        creates_def json_response_def http_Error_def StatusOK_def StatusCreated_def
        StatusNoContent_def StatusBadRequest_def StatusNotFound_def StatusConflict_def)
  let ?rA = "\<lparr>vars_id = [], req_body = Object \<lparr>id_member = None, task_member = Some ''Learn Go'', done_member = Some False\<rparr>\<rparr>"
  let ?rB = "\<lparr>vars_id = [], req_body = Object \<lparr>id_member = None, task_member = Some ''Write tests'', done_member = Some False\<rparr>\<rparr>"
  let ?rC = "\<lparr>vars_id = [], req_body = Object \<lparr>id_member = None, task_member = Some ''Ship it'', done_member = Some False\<rparr>\<rparr>"
  let ?del1 = "\<lparr>vars_id = ''1'', req_body = Undecodable ''EOF''\<rparr>"
  let ?del3 = "\<lparr>vars_id = ''3'', req_body = Undecodable ''EOF''\<rparr>"
  let ?pre = "[(POST_todos, ?rA), (DELETE_todos_id, ?del1), (POST_todos, ?rB), (DELETE_todos_id, ?del3)]"
  let ?calls = "[(POST_todos, ?rA), (DELETE_todos_id, ?del1), (POST_todos, ?rB), (DELETE_todos_id, ?del3), (POST_todos, ?rC)]"
  let ?s = "[\<lparr>ID = 2, Task = ''Build a simple API'', Done = False\<rparr>, \<lparr>ID = 4, Task = ''Write tests'', Done = False\<rparr>]"
  note defs = todos_init_def CreateHandler_def DeleteHandler_def Decode_def Atoi_def
      is_digit_def Let_def word_sless_alt slices_Delete_def assigned_id_def json_response_def
      http_Error_def StatusCreated_def StatusNoContent_def StatusBadRequest_def StatusNotFound_def
  have mx: "Max (insert 0 (sint ` ID ` set todos_init)) = 2" by (simp add: todos_init_def)
  have room: "Max (insert 0 (sint ` ID ` set todos_init)) + int (creates ?calls) < 2 ^ 63"
    by (simp add: mx creates_def)
  have keep: "deletes_keep_max todos_init ?calls" by (simp add: defs)
  have ids: "created_ids todos_init ?calls = [3, 4, 5]" by (simp add: defs)
  have pre: "run todos_init ?pre = ?s" by (simp add: defs)
  have some: "assigned_id POST_todos (snd (CreateHandler ?s ?rC)) = Some 5" by (simp add: defs)
  have split: "?calls = ?pre @ (POST_todos, ?rC) # []" by simp
  have a3: "Atoi (vars_id ?del3) = Some 3" by (simp add: Atoi_def is_digit_def)
  have dA: "Decode (req_body ?rA) = Inr \<lparr>ID = 0, Task = ''Learn Go'', Done = False\<rparr>"
    and dB: "Decode (req_body ?rB) = Inr \<lparr>ID = 0, Task = ''Write tests'', Done = False\<rparr>"
    by (simp_all add: Decode_def)
  note w = created_identifiers_distinct_while_max_kept [OF room]
  note w1 = w [THEN conjunct1, rule_format]
  note w2 = w [THEN conjunct2, THEN conjunct1, rule_format]
  note w3 = w [THEN conjunct2, THEN conjunct2, rule_format]
  from w2 [OF keep] have d: "distinct (created_ids todos_init ?calls)" by (rule conjunct1)
  have some': "assigned_id POST_todos (snd (CreateHandler (run todos_init ?pre) ?rC)) = Some 5"
    unfolding pre by (rule some)
  have "5 \<notin> ID ` set (run todos_init ?pre)"
    by (rule w1 [of ?pre ?rC "[]" 5, OF conjI [OF split some']])
  then have f: "5 \<notin> ID ` set ?s" unfolding pre .
  have n3: "word_of_int (Max (insert 0 (sint ` ID ` set todos_init)) + 1) = (3 :: go_int)"
    by (simp add: mx)
  have a3': "Atoi (vars_id ?del3)
      = Some (word_of_int (Max (insert 0 (sint ` ID ` set todos_init)) + 1))"
    unfolding n3 by (rule a3)
  have lt: "Max (insert 0 (sint ` ID ` set todos_init)) < 2 ^ 63 - 1" by (simp add: mx)
  have tA: "Task \<lparr>ID = 0, Task = ''Learn Go'', Done = False\<rparr> \<noteq> []"
    and tB: "Task \<lparr>ID = 0, Task = ''Write tests'', Done = False\<rparr> \<noteq> []" by simp_all
  have hyp: "Decode (req_body ?rA) = Inr \<lparr>ID = 0, Task = ''Learn Go'', Done = False\<rparr>
      \<and> Task \<lparr>ID = 0, Task = ''Learn Go'', Done = False\<rparr> \<noteq> []
      \<and> Decode (req_body ?rB) = Inr \<lparr>ID = 0, Task = ''Write tests'', Done = False\<rparr>
      \<and> Task \<lparr>ID = 0, Task = ''Write tests'', Done = False\<rparr> \<noteq> []
      \<and> Atoi (vars_id ?del3)
          = Some (word_of_int (Max (insert 0 (sint ` ID ` set todos_init)) + 1))
      \<and> Max (insert 0 (sint ` ID ` set todos_init)) < 2 ^ 63 - 1"
    using dA tA dB tB a3' lt by (intro conjI)
  from w3 [OF hyp] have reuse: "created_ids todos_init [(POST_todos, ?rA), (DELETE_todos_id, ?del3), (POST_todos, ?rB)] = [3, 3]"
    unfolding n3 by (rule conjunct1)
  show ?thesis using room keep ids d pre some f a3 reuse by (intro conjI)
qed

theorem created_identifiers_reused_counterexample:
  "responses todos_init
     [(POST_todos, \<lparr>vars_id = [], req_body = Object \<lparr>id_member = None, task_member = Some ''Learn Go'', done_member = Some False\<rparr>\<rparr>),
      (DELETE_todos_id, \<lparr>vars_id = ''3'', req_body = Undecodable ''EOF''\<rparr>),
      (POST_todos, \<lparr>vars_id = [], req_body = Object \<lparr>id_member = None, task_member = Some ''Write tests'', done_member = Some False\<rparr>\<rparr>)]
   = [\<lparr>status = 201, content_type = Some ''application/json'',
       resp_body = JSON_Todo \<lparr>ID = 3, Task = ''Learn Go'', Done = False\<rparr>\<rparr>,
      \<lparr>status = 204, content_type = None, resp_body = Empty\<rparr>,
      \<lparr>status = 201, content_type = Some ''application/json'',
       resp_body = JSON_Todo \<lparr>ID = 3, Task = ''Write tests'', Done = False\<rparr>\<rparr>]
   \<and> created_ids todos_init
     [(POST_todos, \<lparr>vars_id = [], req_body = Object \<lparr>id_member = None, task_member = Some ''Learn Go'', done_member = Some False\<rparr>\<rparr>),
      (DELETE_todos_id, \<lparr>vars_id = ''3'', req_body = Undecodable ''EOF''\<rparr>),
      (POST_todos, \<lparr>vars_id = [], req_body = Object \<lparr>id_member = None, task_member = Some ''Write tests'', done_member = Some False\<rparr>\<rparr>)]
   = [3, 3]
   \<and> \<not> distinct (created_ids todos_init
     [(POST_todos, \<lparr>vars_id = [], req_body = Object \<lparr>id_member = None, task_member = Some ''Learn Go'', done_member = Some False\<rparr>\<rparr>),
      (DELETE_todos_id, \<lparr>vars_id = ''3'', req_body = Undecodable ''EOF''\<rparr>),
      (POST_todos, \<lparr>vars_id = [], req_body = Object \<lparr>id_member = None, task_member = Some ''Write tests'', done_member = Some False\<rparr>\<rparr>)])"
  by (simp add: todos_init_def CreateHandler_def DeleteHandler_def Decode_def Atoi_def
      is_digit_def Let_def word_sless_alt slices_Delete_def assigned_id_def json_response_def
      StatusCreated_def StatusNoContent_def)

lemma length_numbered: "length (numbered m ds) = length ds"
  by (induction ds arbitrary: m) simp_all

lemma nth_numbered:
  "k < length ds \<Longrightarrow>
   numbered m ds ! k = \<lparr>ID = word_of_int (m + 1 + int k), Task = Task (ds ! k), Done = Done (ds ! k)\<rparr>"
proof (induction ds arbitrary: m k)
  case Nil
  then show ?case by simp
next
  case (Cons d ds)
  show ?case
  proof (cases k)
    case 0
    then show ?thesis by simp
  next
    case (Suc j)
    with Cons.prems have "j < length ds" by simp
    from Cons.IH [OF this, of "m + 1"] Suc show ?thesis by (simp add: add.commute add.left_commute)
  qed
qed

lemma creates_only:
  assumes "map (\<lambda>r. Decode (req_body r)) reqs = map Inr datas"
    and "\<forall>d\<in>set datas. Task d \<noteq> []"
    and "sint (max_scan 0 todos) + int (length reqs) < 2 ^ 63"
  shows "run todos (map (Pair POST_todos) reqs)
           = todos @ numbered (sint (max_scan 0 todos)) datas
       \<and> responses todos (map (Pair POST_todos) reqs)
           = map (\<lambda>t. json_response StatusCreated (JSON_Todo t))
               (numbered (sint (max_scan 0 todos)) datas)"
  using assms
proof (induction reqs arbitrary: todos datas)
  case Nil
  then show ?case by simp
next
  case (Cons r reqs)
  from Cons.prems(1) obtain d ds where datas: "datas = d # ds"
    and dec: "Decode (req_body r) = Inr d"
    and rest: "map (\<lambda>r. Decode (req_body r)) reqs = map Inr ds"
    by (cases datas) auto
  from Cons.prems(2) datas have task: "Task d \<noteq> []" and tasks: "\<forall>d\<in>set ds. Task d \<noteq> []"
    by auto
  let ?M = "max_scan 0 todos"
  let ?new = "\<lparr>ID = ?M + 1, Task = Task d, Done = Done d\<rparr>"
  from Cons.prems(3) have room1: "sint ?M < 2 ^ 63 - 1" by simp
  have step: "CreateHandler todos r = (todos @ [?new], json_response StatusCreated (JSON_Todo ?new))"
    using CreateHandler_ok [OF dec task] .
  have mx: "max_scan 0 (todos @ [?new]) = ?M + 1" using max_scan_snoc [OF room1] .
  have sn: "sint (?M + 1) = sint ?M + 1" using sint_succ_no_wrap [OF room1] .
  from Cons.prems(3) mx sn
  have room: "sint (max_scan 0 (todos @ [?new])) + int (length reqs) < 2 ^ 63" by simp
  from Cons.IH [OF rest tasks room] mx sn
  have ih: "run (todos @ [?new]) (map (Pair POST_todos) reqs)
           = (todos @ [?new]) @ numbered (sint ?M + 1) ds"
    and ihr: "responses (todos @ [?new]) (map (Pair POST_todos) reqs)
           = map (\<lambda>t. json_response StatusCreated (JSON_Todo t)) (numbered (sint ?M + 1) ds)"
    by simp_all
  have new: "\<lparr>ID = word_of_int (sint ?M + 1), Task = Task d, Done = Done d\<rparr> = ?new"
    by simp
  show ?case using step ih ihr new by (simp add: datas)
qed

lemma creates_map_POST: "creates (map (Pair POST_todos) reqs) = length reqs"
  by (simp add: creates_def filter_map comp_def)

lemma creates_then_list_and_read:
  assumes "map (\<lambda>r. Decode (req_body r)) reqs = map Inr datas"
    and "\<forall>d\<in>set datas. Task d \<noteq> []"
    and "length reqs < 2 ^ 63"
  shows
    "(let calls = map (Pair POST_todos) reqs; final = run [] calls in
        length final = length reqs
        \<and> (\<forall>k<length reqs.
              final ! k = \<lparr>ID = of_nat (k + 1), Task = Task (datas ! k), Done = Done (datas ! k)\<rparr>)
        \<and> responses [] calls = map (\<lambda>t. json_response StatusCreated (JSON_Todo t)) final
        \<and> ListHandler final r = (final, json_response StatusOK (JSON_Todos final))
        \<and> (\<forall>k<length reqs. \<forall>rd. Atoi (vars_id rd) = Some (of_nat (k + 1)) \<longrightarrow>
              ReadHandler final rd = (final, json_response StatusOK (JSON_Todo (final ! k)))))"
proof -
  let ?calls = "map (Pair POST_todos) reqs"
  let ?final = "run [] ?calls"
  have len: "length datas = length reqs" using assms(1) by (metis length_map)
  from assms(3) have room: "int (length reqs) < 2 ^ 63"
    by (simp add: of_nat_less_iff [symmetric] del: of_nat_less_iff)
  then have room0: "sint (max_scan 0 []) + int (length reqs) < 2 ^ 63" by simp
  from creates_only [OF assms(1,2) room0]
  have fin: "?final = numbered 0 datas"
    and resp: "responses [] ?calls = map (\<lambda>t. json_response StatusCreated (JSON_Todo t)) ?final"
    by simp_all
  have l: "length ?final = length reqs" by (simp add: fin length_numbered len)
  have nth: "?final ! k = \<lparr>ID = of_nat (k + 1), Task = Task (datas ! k), Done = Done (datas ! k)\<rparr>"
    if "k < length reqs" for k
  proof -
    from that len have "k < length datas" by simp
    from nth_numbered [OF this, of 0] show ?thesis by (simp add: fin add.commute)
  qed
  have dist: "distinct (map ID ?final)"
  proof -
    have "0 + int (creates ?calls) < 2 ^ 63" using room by (simp add: creates_map_POST)
    from run_keeps_invariant [of "[]" 0 ?calls, OF _ _ _ this] show ?thesis by simp
  qed
  have read: "ReadHandler ?final rd = (?final, json_response StatusOK (JSON_Todo (?final ! k)))"
    if "k < length reqs" and "Atoi (vars_id rd) = Some (of_nat (k + 1))" for k rd
  proof -
    from that(1) l have k: "k < length ?final" by simp
    from nth [OF that(1)] have "ID (?final ! k) = of_nat (k + 1)" by simp
    with find_todo_distinct [OF dist k]
    have "find_todo ?final (of_nat (k + 1)) = Some (?final ! k)" by simp
    with that(2) show ?thesis by (simp add: ReadHandler_def)
  qed
  have list: "ListHandler ?final r = (?final, json_response StatusOK (JSON_Todos ?final))"
    by (simp add: ListHandler_def)
  show ?thesis
    unfolding Let_def using l nth resp list read by (intro conjI allI impI) blast+
qed

text \<open>
  C8. Starting from the empty collection, \<open>N\<close> successful Create calls (with \<open>N < 2^63\<close>,
  more than a slice can hold) are each answered 201 with the created item and leave a
  collection of exactly these \<open>N\<close> items in the order of the calls, the one of call \<open>k\<close>
  (counting from 0) with the identifier \<open>k + 1\<close> and the task and completion flag of its
  body. List answers 200 with this whole sequence as JSON under the JSON content type, and
  a Read of each identifier \<open>k + 1\<close> answers 200 with the item created by call \<open>k\<close>.
\<close>

theorem list_and_read_after_creates:
  assumes "map (\<lambda>r. Decode (req_body r)) reqs = map Inr datas"
    and "\<forall>d\<in>set datas. Task d \<noteq> []"
    and "length reqs < 2 ^ 63"
  shows
    "(let calls = map (Pair POST_todos) reqs; final = run [] calls in
        length final = length reqs
        \<and> (\<forall>k<length reqs.
              final ! k = \<lparr>ID = of_nat (k + 1), Task = Task (datas ! k), Done = Done (datas ! k)\<rparr>)
        \<and> responses [] calls
            = map (\<lambda>t. \<lparr>status = 201, content_type = Some ''application/json'',
                          resp_body = JSON_Todo t\<rparr>) final
        \<and> ListHandler final r
            = (final, \<lparr>status = 200, content_type = Some ''application/json'',
                        resp_body = JSON_Todos final\<rparr>)
        \<and> (\<forall>k<length reqs. \<forall>rd. Atoi (vars_id rd) = Some (of_nat (k + 1)) \<longrightarrow>
              ReadHandler final rd
                = (final, \<lparr>status = 200, content_type = Some ''application/json'',
                            resp_body = JSON_Todo (final ! k)\<rparr>)))"
  by (rule creates_then_list_and_read
      [OF assms, of r, unfolded json_response_def StatusCreated_def StatusOK_def])

theorem list_and_read_after_creates_witness:
  "map (\<lambda>r. Decode (req_body r))
     [\<lparr>vars_id = [], req_body = Object \<lparr>id_member = None, task_member = Some ''Learn Go'', done_member = Some False\<rparr>\<rparr>,
      \<lparr>vars_id = [], req_body = Object \<lparr>id_member = Some 9, task_member = Some ''Write tests'', done_member = None\<rparr>\<rparr>]
     = map Inr [\<lparr>ID = 0, Task = ''Learn Go'', Done = False\<rparr>, \<lparr>ID = 9, Task = ''Write tests'', Done = False\<rparr>]
   \<and> Task \<lparr>ID = 0, Task = ''Learn Go'', Done = False\<rparr> \<noteq> []
   \<and> Task \<lparr>ID = 9, Task = ''Write tests'', Done = False\<rparr> \<noteq> []
   \<and> length
     [\<lparr>vars_id = [], req_body = Object \<lparr>id_member = None, task_member = Some ''Learn Go'', done_member = Some False\<rparr>\<rparr>,
      \<lparr>vars_id = [], req_body = Object \<lparr>id_member = Some 9, task_member = Some ''Write tests'', done_member = None\<rparr>\<rparr>]
     < 2 ^ 63
   \<and> run []
     [(POST_todos, \<lparr>vars_id = [], req_body = Object \<lparr>id_member = None, task_member = Some ''Learn Go'', done_member = Some False\<rparr>\<rparr>),
      (POST_todos, \<lparr>vars_id = [], req_body = Object \<lparr>id_member = Some 9, task_member = Some ''Write tests'', done_member = None\<rparr>\<rparr>)]
     = [\<lparr>ID = 1, Task = ''Learn Go'', Done = False\<rparr>, \<lparr>ID = 2, Task = ''Write tests'', Done = False\<rparr>]
   \<and> responses []
     [(POST_todos, \<lparr>vars_id = [], req_body = Object \<lparr>id_member = None, task_member = Some ''Learn Go'', done_member = Some False\<rparr>\<rparr>),
      (POST_todos, \<lparr>vars_id = [], req_body = Object \<lparr>id_member = Some 9, task_member = Some ''Write tests'', done_member = None\<rparr>\<rparr>)]
     = [\<lparr>status = 201, content_type = Some ''application/json'',
         resp_body = JSON_Todo \<lparr>ID = 1, Task = ''Learn Go'', Done = False\<rparr>\<rparr>,
        \<lparr>status = 201, content_type = Some ''application/json'',
         resp_body = JSON_Todo \<lparr>ID = 2, Task = ''Write tests'', Done = False\<rparr>\<rparr>]
   \<and> ListHandler [\<lparr>ID = 1, Task = ''Learn Go'', Done = False\<rparr>, \<lparr>ID = 2, Task = ''Write tests'', Done = False\<rparr>]
         \<lparr>vars_id = [], req_body = Undecodable ''EOF''\<rparr>
     = ([\<lparr>ID = 1, Task = ''Learn Go'', Done = False\<rparr>, \<lparr>ID = 2, Task = ''Write tests'', Done = False\<rparr>],
        \<lparr>status = 200, content_type = Some ''application/json'',
         resp_body = JSON_Todos
          [\<lparr>ID = 1, Task = ''Learn Go'', Done = False\<rparr>, \<lparr>ID = 2, Task = ''Write tests'', Done = False\<rparr>]\<rparr>)
   \<and> Atoi (vars_id \<lparr>vars_id = ''2'', req_body = Undecodable ''EOF''\<rparr>) = Some 2
   \<and> ReadHandler [\<lparr>ID = 1, Task = ''Learn Go'', Done = False\<rparr>, \<lparr>ID = 2, Task = ''Write tests'', Done = False\<rparr>]
         \<lparr>vars_id = ''2'', req_body = Undecodable ''EOF''\<rparr>
     = ([\<lparr>ID = 1, Task = ''Learn Go'', Done = False\<rparr>, \<lparr>ID = 2, Task = ''Write tests'', Done = False\<rparr>],
        \<lparr>status = 200, content_type = Some ''application/json'',
         resp_body = JSON_Todo \<lparr>ID = 2, Task = ''Write tests'', Done = False\<rparr>\<rparr>)"
proof -
  have by_evaluation:
    "map (\<lambda>r. Decode (req_body r))
        [\<lparr>vars_id = [], req_body = Object \<lparr>id_member = None, task_member = Some ''Learn Go'', done_member = Some False\<rparr>\<rparr>,
         \<lparr>vars_id = [], req_body = Object \<lparr>id_member = Some 9, task_member = Some ''Write tests'', done_member = None\<rparr>\<rparr>]
        = map Inr [\<lparr>ID = 0, Task = ''Learn Go'', Done = False\<rparr>, \<lparr>ID = 9, Task = ''Write tests'', Done = False\<rparr>]
      \<and> Task \<lparr>ID = 0, Task = ''Learn Go'', Done = False\<rparr> \<noteq> []
      \<and> Task \<lparr>ID = 9, Task = ''Write tests'', Done = False\<rparr> \<noteq> []
      \<and> length
        [\<lparr>vars_id = [], req_body = Object \<lparr>id_member = None, task_member = Some ''Learn Go'', done_member = Some False\<rparr>\<rparr>,
         \<lparr>vars_id = [], req_body = Object \<lparr>id_member = Some 9, task_member = Some ''Write tests'', done_member = None\<rparr>\<rparr>]
        < 2 ^ 63
      \<and> run []
        [(POST_todos, \<lparr>vars_id = [], req_body = Object \<lparr>id_member = None, task_member = Some ''Learn Go'', done_member = Some False\<rparr>\<rparr>),
         (POST_todos, \<lparr>vars_id = [], req_body = Object \<lparr>id_member = Some 9, task_member = Some ''Write tests'', done_member = None\<rparr>\<rparr>)]
        = [\<lparr>ID = 1, Task = ''Learn Go'', Done = False\<rparr>, \<lparr>ID = 2, Task = ''Write tests'', Done = False\<rparr>]
      \<and> responses []
        [(POST_todos, \<lparr>vars_id = [], req_body = Object \<lparr>id_member = None, task_member = Some ''Learn Go'', done_member = Some False\<rparr>\<rparr>),
         (POST_todos, \<lparr>vars_id = [], req_body = Object \<lparr>id_member = Some 9, task_member = Some ''Write tests'', done_member = None\<rparr>\<rparr>)]
        = [\<lparr>status = 201, content_type = Some ''application/json'',
            resp_body = JSON_Todo \<lparr>ID = 1, Task = ''Learn Go'', Done = False\<rparr>\<rparr>,
           \<lparr>status = 201, content_type = Some ''application/json'',
            resp_body = JSON_Todo \<lparr>ID = 2, Task = ''Write tests'', Done = False\<rparr>\<rparr>]
      \<and> ListHandler [\<lparr>ID = 1, Task = ''Learn Go'', Done = False\<rparr>, \<lparr>ID = 2, Task = ''Write tests'', Done = False\<rparr>]
            \<lparr>vars_id = [], req_body = Undecodable ''EOF''\<rparr>
        = ([\<lparr>ID = 1, Task = ''Learn Go'', Done = False\<rparr>, \<lparr>ID = 2, Task = ''Write tests'', Done = False\<rparr>],
           \<lparr>status = 200, content_type = Some ''application/json'',
            resp_body = JSON_Todos
             [\<lparr>ID = 1, Task = ''Learn Go'', Done = False\<rparr>, \<lparr>ID = 2, Task = ''Write tests'', Done = False\<rparr>]\<rparr>)
      \<and> Atoi (vars_id \<lparr>vars_id = ''2'', req_body = Undecodable ''EOF''\<rparr>) = Some 2
      \<and> ReadHandler [\<lparr>ID = 1, Task = ''Learn Go'', Done = False\<rparr>, \<lparr>ID = 2, Task = ''Write tests'', Done = False\<rparr>]
            \<lparr>vars_id = ''2'', req_body = Undecodable ''EOF''\<rparr>
        = ([\<lparr>ID = 1, Task = ''Learn Go'', Done = False\<rparr>, \<lparr>ID = 2, Task = ''Write tests'', Done = False\<rparr>],
           \<lparr>status = 200, content_type = Some ''application/json'',
            resp_body = JSON_Todo \<lparr>ID = 2, Task = ''Write tests'', Done = False\<rparr>\<rparr>)"
    by (simp add: todos_init_def CreateHandler_def DeleteHandler_def UpdateHandler_def
        ReadHandler_def ListHandler_def UpdateHandler_db_def mysql_update_def Decode_def Atoi_def
        is_digit_def Let_def word_sless_alt word_sle_eq slices_Delete_def assigned_id_def
        creates_def json_response_def http_Error_def StatusOK_def StatusCreated_def
        StatusNoContent_def StatusBadRequest_def StatusNotFound_def StatusConflict_def)
  let ?rA = "\<lparr>vars_id = [], req_body = Object \<lparr>id_member = None, task_member = Some ''Learn Go'', done_member = Some False\<rparr>\<rparr>"
  let ?rB = "\<lparr>vars_id = [], req_body = Object \<lparr>id_member = Some 9, task_member = Some ''Write tests'', done_member = None\<rparr>\<rparr>"
  let ?dA = "\<lparr>ID = 0, Task = ''Learn Go'', Done = False\<rparr>"
  let ?dB = "\<lparr>ID = 9, Task = ''Write tests'', Done = False\<rparr>"
  let ?rl = "\<lparr>vars_id = [], req_body = Undecodable ''EOF''\<rparr>"
  let ?rd = "\<lparr>vars_id = ''2'', req_body = Undecodable ''EOF''\<rparr>"
  let ?final = "[\<lparr>ID = 1, Task = ''Learn Go'', Done = False\<rparr>, \<lparr>ID = 2, Task = ''Write tests'', Done = False\<rparr>]"
  let ?run = "run [] (map (Pair POST_todos) [?rA, ?rB])"
  have dec: "map (\<lambda>r. Decode (req_body r)) [?rA, ?rB] = map Inr [?dA, ?dB]"
    by (simp add: Decode_def)
  have tasks: "\<forall>d\<in>set [?dA, ?dB]. Task d \<noteq> []" by simp
  have tA: "Task ?dA \<noteq> []" and tB: "Task ?dB \<noteq> []" by simp_all
  have len: "length [?rA, ?rB] < 2 ^ 63" by simp
  have a: "Atoi (vars_id ?rd) = Some 2" by (simp add: Atoi_def is_digit_def)
  note w = list_and_read_after_creates [OF dec tasks len, of ?rl, unfolded Let_def]
  from w have l: "length ?run = 2" by simp
  from w have n0: "?run ! 0 = \<lparr>ID = 1, Task = ''Learn Go'', Done = False\<rparr>"
    by force
  from w have "?run ! 1
      = \<lparr>ID = of_nat (1 + 1), Task = Task ([?dA, ?dB] ! 1), Done = Done ([?dA, ?dB] ! 1)\<rparr>"
    by (metis length_Cons list.size(3) lessI One_nat_def Suc_1)
  then have n1: "?run ! 1 = \<lparr>ID = 2, Task = ''Write tests'', Done = False\<rparr>"
    by simp
  have fin': "?run = ?final"
  proof (rule nth_equalityI)
    show "length ?run = length ?final" using l by simp
    fix i assume "i < length ?run"
    with l have "i = 0 \<or> i = 1" by auto
    with n0 n1 show "?run ! i = ?final ! i" by auto
  qed
  then have fin: "run [] [(POST_todos, ?rA), (POST_todos, ?rB)] = ?final" by simp
  from w have "responses [] (map (Pair POST_todos) [?rA, ?rB])
      = map (\<lambda>t. \<lparr>status = 201, content_type = Some ''application/json'',
                    resp_body = JSON_Todo t\<rparr>) ?run"
    by blast
  then have resp: "responses [] [(POST_todos, ?rA), (POST_todos, ?rB)]
      = [\<lparr>status = 201, content_type = Some ''application/json'',
          resp_body = JSON_Todo \<lparr>ID = 1, Task = ''Learn Go'', Done = False\<rparr>\<rparr>,
         \<lparr>status = 201, content_type = Some ''application/json'',
          resp_body = JSON_Todo \<lparr>ID = 2, Task = ''Write tests'', Done = False\<rparr>\<rparr>]"
    unfolding fin' by simp
  from w have "ListHandler ?run ?rl
      = (?run, \<lparr>status = 200, content_type = Some ''application/json'',
                resp_body = JSON_Todos ?run\<rparr>)"
    by blast
  then have list: "ListHandler ?final ?rl
      = (?final, \<lparr>status = 200, content_type = Some ''application/json'',
                  resp_body = JSON_Todos ?final\<rparr>)"
    unfolding fin' .
  have a': "Atoi (vars_id ?rd) = Some (of_nat (1 + 1))" using a by simp
  from w have "\<forall>k<length [?rA, ?rB]. \<forall>rd. Atoi (vars_id rd) = Some (of_nat (k + 1)) \<longrightarrow>
      ReadHandler ?run rd
        = (?run, \<lparr>status = 200, content_type = Some ''application/json'',
                   resp_body = JSON_Todo (?run ! k)\<rparr>)"
    by blast
  then have "ReadHandler ?run ?rd
        = (?run, \<lparr>status = 200, content_type = Some ''application/json'',
                   resp_body = JSON_Todo (?run ! 1)\<rparr>)"
    using a' by (metis length_Cons list.size(3) lessI One_nat_def Suc_1)
  then have read: "ReadHandler ?final ?rd
      = (?final, \<lparr>status = 200, content_type = Some ''application/json'',
           resp_body = JSON_Todo \<lparr>ID = 2, Task = ''Write tests'', Done = False\<rparr>\<rparr>)"
    unfolding fin' by simp
  show ?thesis using dec tA tB len fin resp list a read by (intro conjI)
qed

end
